theory Spec2Isabelle
  imports Main
begin

section \<open>Python values and built-ins used by the admin API\<close>

text \<open>
  The provider admin API (\<^verbatim>\<open>provider-core/admin_api.py\<close>) handles JSON request bodies and
  the JSON printed by the \<^verbatim>\<open>arkeod\<close> command line client. A Python value that can come out
  of \<^verbatim>\<open>json.loads\<close> is a \<open>pyval\<close>. Strings are lists of characters read as code points
  below 256. A float is kept abstract: all this program observes of one is whether it is
  non-zero and how \<^verbatim>\<open>str()\<close> prints it.
\<close>

datatype pyval =
    PNone
  | PBool bool
  | PInt int
  | PFloat bool string
  | PStr string
  | PList "pyval list"
  | PDict "(string \<times> pyval) list"

text \<open>
  The exceptions that can leave a function here. \<open>ValueError\<close> stands for whatever
  \<^verbatim>\<open>json.loads\<close> raises that is not a \<^verbatim>\<open>JSONDecodeError\<close>.
\<close>

datatype exn = AttributeError | TypeError | RunError | ValueError

text \<open>Truth value testing, and \<^verbatim>\<open>a or b\<close>.\<close>

fun truthy :: "pyval \<Rightarrow> bool" where
  "truthy PNone = False"
| "truthy (PBool b) = b"
| "truthy (PInt i) = (i \<noteq> 0)"
| "truthy (PFloat nz r) = nz"
| "truthy (PStr s) = (s \<noteq> [])"
| "truthy (PList xs) = (xs \<noteq> [])"
| "truthy (PDict kvs) = (kvs \<noteq> [])"

definition py_or :: "pyval \<Rightarrow> pyval \<Rightarrow> pyval" where
  "py_or a b = (if truthy a then a else b)"

text \<open>\<^verbatim>\<open>d.get(k)\<close> on a dict: the value, or \<^verbatim>\<open>None\<close> when the key is absent.\<close>

definition dict_get :: "(string \<times> pyval) list \<Rightarrow> string \<Rightarrow> pyval" where
  "dict_get kvs k = (case map_of kvs k of None \<Rightarrow> PNone | Some v \<Rightarrow> v)"

text \<open>\<^verbatim>\<open>str(int)\<close>: decimal digits, with a minus sign for a negative number.\<close>

fun digits_of :: "nat \<Rightarrow> string" where
  "digits_of n =
     (if n < 10 then [''0123456789'' ! n]
      else digits_of (n div 10) @ [''0123456789'' ! (n mod 10)])"

declare digits_of.simps [simp del]

definition str_of_int :: "int \<Rightarrow> string" where
  "str_of_int i = (if i < 0 then CHR ''-'' # digits_of (nat (- i)) else digits_of (nat i))"

text \<open>
  \<^verbatim>\<open>str(v)\<close>. The text Python prints for a list or a dict is not modelled: it is the
  parameter \<open>repr\<close>.
\<close>

fun py_str :: "(pyval \<Rightarrow> string) \<Rightarrow> pyval \<Rightarrow> string" where
  "py_str repr PNone = ''None''"
| "py_str repr (PBool b) = (if b then ''True'' else ''False'')"
| "py_str repr (PInt i) = str_of_int i"
| "py_str repr (PFloat nz r) = r"
| "py_str repr (PStr s) = s"
| "py_str repr (PList xs) = repr (PList xs)"
| "py_str repr (PDict kvs) = repr (PDict kvs)"

subsection \<open>String methods\<close>

text \<open>
  The character classes of Python 3 for code points below 256: \<^verbatim>\<open>str.isspace\<close> (also the
  \<^verbatim>\<open>\s\<close> of \<^verbatim>\<open>re\<close> on a \<^verbatim>\<open>str\<close> pattern), \<^verbatim>\<open>str.isdigit\<close> (which takes the superscript
  digits), the \<^verbatim>\<open>\d\<close> of \<^verbatim>\<open>re\<close> (decimal digits only), and the line boundaries of
  \<^verbatim>\<open>str.splitlines\<close>.
\<close>

definition is_space :: "char \<Rightarrow> bool" where
  "is_space c = ((of_char c :: nat) \<in> set [9, 10, 11, 12, 13, 28, 29, 30, 31, 32, 133, 160])"

definition is_digit :: "char \<Rightarrow> bool" where
  "is_digit c = ((of_char c :: nat) \<in> set [48, 49, 50, 51, 52, 53, 54, 55, 56, 57, 178, 179, 185])"

definition re_digit :: "char \<Rightarrow> bool" where
  "re_digit c = ((of_char c :: nat) \<in> set [48, 49, 50, 51, 52, 53, 54, 55, 56, 57])"

definition is_linebreak :: "char \<Rightarrow> bool" where
  "is_linebreak c = ((of_char c :: nat) \<in> set [10, 11, 12, 13, 28, 29, 30, 133])"

definition strip :: "string \<Rightarrow> string" where
  "strip s = rev (dropWhile is_space (rev (dropWhile is_space s)))"

definition isdigit :: "string \<Rightarrow> bool" where
  "isdigit s = (s \<noteq> [] \<and> list_all is_digit s)"

definition startswith :: "string \<Rightarrow> string \<Rightarrow> bool" where
  "startswith s p = (take (length p) s = p)"

text \<open>\<^verbatim>\<open>p in s\<close> for strings.\<close>

fun contains :: "string \<Rightarrow> string \<Rightarrow> bool" where
  "contains [] p = (p = [])"
| "contains (c # cs) p = (startswith (c # cs) p \<or> contains cs p)"

text \<open>
  \<^verbatim>\<open>s.splitlines()\<close>: the lines without their terminators; \<^verbatim>\<open>\r\n\<close> is one terminator, and
  there is no empty last line after a final terminator.
\<close>

fun splitlines_from :: "string \<Rightarrow> string \<Rightarrow> string list" where
  "splitlines_from cur [] = (if cur = [] then [] else [cur])"
| "splitlines_from cur [c] = (if is_linebreak c then [cur] else [cur @ [c]])"
| "splitlines_from cur (c # d # cs) =
     (if c = CHR 0x0D \<and> d = CHR 0x0A then cur # splitlines_from [] cs
      else if is_linebreak c then cur # splitlines_from [] (d # cs)
      else splitlines_from (cur @ [c]) (d # cs))"

definition splitlines :: "string \<Rightarrow> string list" where
  "splitlines s = splitlines_from [] s"

text \<open>
  \<^verbatim>\<open>s.replace(old, new)\<close>: every occurrence of \<open>old\<close>, left to right and without overlap.
  With an empty \<open>old\<close> Python puts \<open>new\<close> before every character and at the end.
\<close>

function replace_from :: "string \<Rightarrow> string \<Rightarrow> string \<Rightarrow> string" where
  "replace_from old new [] = []"
| "replace_from old new (c # cs) =
     (if old \<noteq> [] \<and> startswith (c # cs) old
      then new @ replace_from old new (drop (length old - 1) cs)
      else c # replace_from old new cs)"
  by pat_completeness auto
termination
  by (relation "measure (\<lambda>(old, new, s). length s)") auto

definition replace :: "string \<Rightarrow> string \<Rightarrow> string \<Rightarrow> string" where
  "replace s old new =
     (if old = [] then new @ concat (map (\<lambda>c. c # new) s) else replace_from old new s)"

text \<open>
  \<^verbatim>\<open>re.search(r"expected\s+(\d+)", s)\<close>, giving \<^verbatim>\<open>m.group(1)\<close>: the leftmost place where
  the word is followed by at least one white space character and then at least one decimal digit;
  the group is the whole run of digits there.
\<close>

definition match_expected :: "string \<Rightarrow> string option" where
  "match_expected s =
     (if startswith s ''expected'' then
        (let r = drop 8 s;
             ds = takeWhile re_digit (dropWhile is_space r)
         in if takeWhile is_space r \<noteq> [] \<and> ds \<noteq> [] then Some ds else None)
      else None)"

fun search_expected :: "string \<Rightarrow> string option" where
  "search_expected [] = None"
| "search_expected (c # cs) =
     (case match_expected (c # cs) of Some ds \<Rightarrow> Some ds | None \<Rightarrow> search_expected cs)"

section \<open>Configuration, external commands and the trace of a request\<close>

text \<open>
  The module reads its settings from the process environment once, when it is loaded. They are
  a parameter of every function here. \<open>NODE_ARGS\<close> and \<open>CHAIN_ARGS\<close> are computed from
  two of them.
\<close>

record config =
  ARKEOD_HOME :: string
  KEY_NAME :: string
  KEYRING :: string
  ARKEOD_NODE :: string
  CHAIN_ID :: string
  SENTINEL_URI_DEFAULT :: string
  METADATA_NONCE_DEFAULT :: string
  BOND_DEFAULT :: string
  FEES_DEFAULT :: string

definition NODE_ARGS :: "config \<Rightarrow> pyval list" where
  "NODE_ARGS cfg = (if ARKEOD_NODE cfg \<noteq> [] then [PStr ''--node'', PStr (ARKEOD_NODE cfg)] else [])"

definition CHAIN_ARGS :: "config \<Rightarrow> pyval list" where
  "CHAIN_ARGS cfg = (if CHAIN_ID cfg \<noteq> [] then [PStr ''--chain-id'', PStr (CHAIN_ID cfg)] else [])"

text \<open>
  What a request does to the outside is a list of events, oldest first: the commands it gave
  to \<^verbatim>\<open>subprocess.check_output\<close> and the seconds it slept. The outside is a function
  \<open>world\<close> from the events so far and the command to what the command does: it exits with a
  code and its output, or \<^verbatim>\<open>check_output\<close> raises something other than
  \<^verbatim>\<open>CalledProcessError\<close> (no such binary, an argument with a null byte, output that is not
  UTF-8). \<open>json_loads\<close> is \<^verbatim>\<open>json.loads\<close>: it gives the value, or raises
  \<^verbatim>\<open>JSONDecodeError\<close>, or raises something else (a plain \<^verbatim>\<open>ValueError\<close> for an integer of
  more than 4300 digits, \<^verbatim>\<open>RecursionError\<close> for a text nested too deep). \<open>py_repr\<close> is what
  \<^verbatim>\<open>str()\<close> prints for a list or a dict.
\<close>

datatype event = Exec "string list" | Sleep nat

datatype proc = Exited int string | Raised

datatype loaded = Loaded pyval | JSONDecodeError | OtherError

record env =
  world :: "event list \<Rightarrow> string list \<Rightarrow> proc"
  json_loads :: "string \<Rightarrow> loaded"
  py_repr :: "pyval \<Rightarrow> string"

fun strs_of :: "pyval list \<Rightarrow> string list option" where
  "strs_of [] = Some []"
| "strs_of (PStr s # xs) = (case strs_of xs of None \<Rightarrow> None | Some ss \<Rightarrow> Some (s # ss))"
| "strs_of (v # xs) = None"

text \<open>
  \<open>run_list\<close>: run a command without a shell and return the exit code and the output.
  \<^verbatim>\<open>check_output\<close> raises \<^verbatim>\<open>TypeError\<close> before it starts anything when an argument is not a
  string.
\<close>

definition run_list :: "env \<Rightarrow> pyval list \<Rightarrow> event list \<Rightarrow> (exn + int \<times> string) \<times> event list" where
  "run_list e cmd tr =
     (case strs_of cmd of
        None \<Rightarrow> (Inl TypeError, tr)
      | Some ss \<Rightarrow>
          (case world e tr ss of
             Exited code out \<Rightarrow> (Inr (code, out), tr @ [Exec ss])
           | Raised \<Rightarrow> (Inl RunError, tr @ [Exec ss])))"

section \<open>Deriving the public keys\<close>

text \<open>
  \<^verbatim>\<open>json.loads(pubkey_out).get("key", "").strip()\<close>, with the empty string when the output is
  not JSON. Only \<^verbatim>\<open>JSONDecodeError\<close> is caught: another exception of \<^verbatim>\<open>json.loads\<close> goes
  on, a JSON value that is not an object has no \<^verbatim>\<open>get\<close>, and a key that is not a string has
  no \<^verbatim>\<open>strip\<close>.
\<close>

definition parse_raw_pubkey :: "env \<Rightarrow> string \<Rightarrow> exn + string" where
  "parse_raw_pubkey e pubkey_out =
     (case json_loads e pubkey_out of
        JSONDecodeError \<Rightarrow> Inr ''''
      | OtherError \<Rightarrow> Inl ValueError
      | Loaded (PDict kvs) \<Rightarrow>
          (case map_of kvs ''key'' of
             None \<Rightarrow> Inr (strip '''')
           | Some (PStr s) \<Rightarrow> Inr (strip s)
           | Some _ \<Rightarrow> Inl AttributeError)
      | Loaded _ \<Rightarrow> Inl AttributeError)"

text \<open>
  The loop over the lines of the conversion output stops at the first line that starts with
  the label, whatever is left of that line.
\<close>

definition find_bech32 :: "string \<Rightarrow> string" where
  "find_bech32 bech32_out =
     (case find (\<lambda>line. startswith line ''Bech32 Acc:'') (splitlines bech32_out) of
        None \<Rightarrow> ''''
      | Some line \<Rightarrow> strip (replace line ''Bech32 Acc:'' ''''))"

text \<open>\<open>derive_pubkeys\<close> returns \<open>(raw_pubkey, bech32_pubkey, error)\<close>.\<close>

definition derive_pubkeys ::
  "config \<Rightarrow> env \<Rightarrow> string \<Rightarrow> string \<Rightarrow> event list
     \<Rightarrow> (exn + string \<times> string \<times> string option) \<times> event list" where
  "derive_pubkeys cfg e user keyring_backend tr =
     (case run_list e
             (map PStr [''arkeod'', ''--home'', ARKEOD_HOME cfg, ''keys'', ''show'', user, ''-p'',
                        ''--keyring-backend'', keyring_backend]) tr of
        (Inl x, tr1) \<Rightarrow> (Inl x, tr1)
      | (Inr (code, pubkey_out), tr1) \<Rightarrow>
          if code \<noteq> 0 then
            (Inr ('''', '''', Some (''failed to fetch raw pubkey: '' @ pubkey_out)), tr1)
          else
            (case parse_raw_pubkey e pubkey_out of
               Inl x \<Rightarrow> (Inl x, tr1)
             | Inr raw \<Rightarrow>
                 if raw = [] then
                   (Inr ('''', '''', Some (''could not parse raw pubkey: '' @ pubkey_out)), tr1)
                 else
                   (case run_list e (map PStr [''arkeod'', ''debug'', ''pubkey-raw'', raw]) tr1 of
                      (Inl x, tr2) \<Rightarrow> (Inl x, tr2)
                    | (Inr (code2, bech32_out), tr2) \<Rightarrow>
                        if code2 \<noteq> 0 then
                          (Inr (raw, '''', Some (''failed to convert pubkey: '' @ bech32_out)), tr2)
                        else if find_bech32 bech32_out = [] then
                          (Inr (raw, '''', Some (''Bech32 pubkey not found: '' @ bech32_out)), tr2)
                        else (Inr (raw, find_bech32 bech32_out, None), tr2))))"

section \<open>Resolving a numeric service id\<close>

text \<open>
  The inner function of the handler that asks the chain for all services and looks for the
  entry with the given id. It returns the name, or \<^verbatim>\<open>None\<close>. The first \<^verbatim>\<open>data.get\<close> is
  not guarded by an \<^verbatim>\<open>isinstance\<close> test; the later ones are.
\<close>

definition services_of :: "pyval \<Rightarrow> exn + pyval" where
  "services_of data =
     (case data of
        PDict kvs \<Rightarrow>
          (let services =
                 py_or (py_or (py_or (dict_get kvs ''services'') (dict_get kvs ''service''))
                              (dict_get kvs ''result'')) (PList [])
           in Inr (case services of
                     PDict s \<Rightarrow> py_or (py_or (dict_get s ''services'') (dict_get s ''service'')) (PList [])
                   | _ \<Rightarrow> services))
      | _ \<Rightarrow> Inl AttributeError)"

fun scan_services :: "(pyval \<Rightarrow> string) \<Rightarrow> string \<Rightarrow> pyval list \<Rightarrow> pyval" where
  "scan_services repr sid [] = PNone"
| "scan_services repr sid (PDict kvs # items) =
     (if py_str repr
           (py_or (py_or (py_or (dict_get kvs ''id'') (dict_get kvs ''service_id''))
                         (dict_get kvs ''serviceID'')) (PStr '''')) = sid
      then py_or (py_or (dict_get kvs ''service'') (dict_get kvs ''name'')) (PStr sid)
      else scan_services repr sid items)"
| "scan_services repr sid (item # items) = scan_services repr sid items"

definition lookup_service_name_by_id ::
  "config \<Rightarrow> env \<Rightarrow> string \<Rightarrow> event list \<Rightarrow> (exn + pyval) \<times> event list" where
  "lookup_service_name_by_id cfg e sid tr =
     (case run_list e
             (map PStr [''arkeod'', ''--home'', ARKEOD_HOME cfg]
              @ (if ARKEOD_NODE cfg \<noteq> [] then [PStr ''--node'', PStr (ARKEOD_NODE cfg)] else [])
              @ map PStr [''query'', ''arkeo'', ''all-services'', ''-o'', ''json'']) tr of
        (Inl x, tr1) \<Rightarrow> (Inl x, tr1)
      | (Inr (code, out), tr1) \<Rightarrow>
          if code \<noteq> 0 then (Inr PNone, tr1)
          else
            (case json_loads e out of
               JSONDecodeError \<Rightarrow> (Inr PNone, tr1)
             | OtherError \<Rightarrow> (Inl ValueError, tr1)
             | Loaded data \<Rightarrow>
                 (case services_of data of
                    Inl x \<Rightarrow> (Inl x, tr1)
                  | Inr (PList items) \<Rightarrow> (Inr (scan_services (py_repr e) sid items), tr1)
                  | Inr _ \<Rightarrow> (Inr PNone, tr1))))"

text \<open>
  Lines 337 to 367 of the handler: the resolved service and the lookup note. Only a string
  whose stripped form is all digits is looked up.
\<close>

definition resolve_service ::
  "config \<Rightarrow> env \<Rightarrow> pyval \<Rightarrow> event list \<Rightarrow> (exn + pyval \<times> string) \<times> event list" where
  "resolve_service cfg e service tr =
     (case service of
        PStr s \<Rightarrow>
          if isdigit (strip s) then
            (case lookup_service_name_by_id cfg e (strip s) tr of
               (Inl x, tr1) \<Rightarrow> (Inl x, tr1)
             | (Inr looked_up, tr1) \<Rightarrow>
                 if truthy looked_up then (Inr (looked_up, ''''), tr1)
                 else (Inr (service, ''could not resolve service id '' @ strip s @ '' to name''), tr1))
          else (Inr (service, ''''), tr)
      | _ \<Rightarrow> (Inr (service, ''''), tr))"

section \<open>The handler of \<^verbatim>\<open>/api/bond-mod-provider\<close>\<close>

text \<open>
  A response is the HTTP status and the JSON body. The handler either returns a response or
  an exception leaves it. The fields read from the request (lines 319 to 331) are \<open>inputs\<close>;
  \<open>locals\<close> adds what the handler has worked out when it reaches the bond lookup.
\<close>

type_synonym response = "nat \<times> pyval"

record inputs =
  service :: pyval
  bond :: string
  sentinel_uri :: pyval
  metadata_nonce :: string
  status :: string
  min_contract_dur :: string
  max_contract_dur :: string
  subscription_rates :: pyval
  pay_as_you_go_rates :: pyval
  settlement_dur :: string

record locals =
  inp :: inputs
  resolved_service :: pyval
  lookup_note :: string
  raw_pubkey :: string
  bech32_pubkey :: string

definition read_payload :: "config \<Rightarrow> env \<Rightarrow> (string \<times> pyval) list \<Rightarrow> inputs" where
  "read_payload cfg e payload =
     \<lparr> service = dict_get payload ''service'',
       bond = py_str (py_repr e) (py_or (dict_get payload ''bond'') (PStr (BOND_DEFAULT cfg))),
       sentinel_uri = py_or (dict_get payload ''sentinel_uri'') (PStr (SENTINEL_URI_DEFAULT cfg)),
       metadata_nonce =
         py_str (py_repr e) (py_or (dict_get payload ''metadata_nonce'') (PStr (METADATA_NONCE_DEFAULT cfg))),
       status = py_str (py_repr e) (py_or (dict_get payload ''status'') (PStr ''1'')),
       min_contract_dur = py_str (py_repr e) (py_or (dict_get payload ''min_contract_dur'') (PStr ''5'')),
       max_contract_dur =
         py_str (py_repr e) (py_or (dict_get payload ''max_contract_dur'') (PStr ''432000'')),
       subscription_rates = py_or (dict_get payload ''subscription_rates'') (PStr ''200uarkeo''),
       pay_as_you_go_rates = py_or (dict_get payload ''pay_as_you_go_rates'') (PStr ''200uarkeo''),
       settlement_dur = py_str (py_repr e) (py_or (dict_get payload ''settlement_dur'') (PStr ''1000'')) \<rparr>"

definition pubkey_json :: "string \<Rightarrow> string \<Rightarrow> pyval" where
  "pubkey_json raw b32 = PDict [(''raw'', PStr raw), (''bech32'', PStr b32)]"

definition str_or_none :: "string option \<Rightarrow> pyval" where
  "str_or_none x = (case x of None \<Rightarrow> PNone | Some s \<Rightarrow> PStr s)"

text \<open>
  Lines 317 to 379. \<open>body\<close> is what \<^verbatim>\<open>request.get_json(force=True, silent=True)\<close> gives:
  the parsed request body, or \<^verbatim>\<open>None\<close>. A body that is true and not an object has no
  \<^verbatim>\<open>get\<close>. The result is the early outcome, or the locals with which the handler goes on.
\<close>

definition prologue ::
  "config \<Rightarrow> env \<Rightarrow> pyval \<Rightarrow> ((exn + response) + locals) \<times> event list" where
  "prologue cfg e body =
     (case py_or body (PDict []) of
        PDict payload \<Rightarrow>
          (let i = read_payload cfg e payload in
           if \<not> truthy (service i) then
             (Inl (Inr (400, PDict [(''error'', PStr ''service is required'')])), [])
           else
             (case resolve_service cfg e (service i) [] of
                (Inl x, tr) \<Rightarrow> (Inl (Inl x), tr)
              | (Inr (resolved, note), tr) \<Rightarrow>
                  (case derive_pubkeys cfg e (KEY_NAME cfg) (KEYRING cfg) tr of
                     (Inl x, tr1) \<Rightarrow> (Inl (Inl x), tr1)
                   | (Inr (raw, b32, pubkey_err), tr1) \<Rightarrow>
                       if truthy (str_or_none pubkey_err) then
                         (Inl (Inr (500,
                            PDict [(''error'', str_or_none pubkey_err),
                                   (''pubkey_error'', str_or_none pubkey_err),
                                   (''user'', PStr (KEY_NAME cfg)),
                                   (''keyring_backend'', PStr (KEYRING cfg)),
                                   (''pubkey'', pubkey_json raw b32)])), tr1)
                       else
                         (Inr \<lparr> inp = i, resolved_service = resolved, lookup_note = note,
                                raw_pubkey = raw, bech32_pubkey = b32 \<rparr>, tr1))))
      | _ \<Rightarrow> (Inl (Inl AttributeError), []))"

subsection \<open>The bond, unless the provider exists\<close>

definition lookup_cmd :: "config \<Rightarrow> locals \<Rightarrow> pyval list" where
  "lookup_cmd cfg L =
     map PStr [''arkeod'', ''--home'', ARKEOD_HOME cfg, ''query'', ''arkeo'', ''provider'',
               bech32_pubkey L]
     @ [resolved_service L, PStr ''-o'', PStr ''json'']
     @ (if ARKEOD_NODE cfg \<noteq> [] then [PStr ''--node'', PStr (ARKEOD_NODE cfg)] else [])"

text \<open>
  Lines 382 to 408: \<open>(skip_bond, bond_out)\<close>. Any exception of the lookup is caught and
  means that the bond is not skipped.
\<close>

definition check_existing ::
  "config \<Rightarrow> env \<Rightarrow> locals \<Rightarrow> event list \<Rightarrow> (bool \<times> string) \<times> event list" where
  "check_existing cfg e L tr =
     (case run_list e (lookup_cmd cfg L) tr of
        (Inl x, tr1) \<Rightarrow> ((False, ''skipped: provider already bonded''), tr1)
      | (Inr (code, lookup_out), tr1) \<Rightarrow>
          if code = 0 then ((True, ''skipped: provider already exists''), tr1)
          else ((False, ''skipped: provider already bonded''), tr1))"

definition bond_cmd :: "config \<Rightarrow> locals \<Rightarrow> pyval list" where
  "bond_cmd cfg L =
     map PStr [''arkeod'', ''--home'', ARKEOD_HOME cfg, ''tx'', ''arkeo'', ''bond-provider'',
               bech32_pubkey L]
     @ [resolved_service L, PStr (bond (inp L))]
     @ NODE_ARGS cfg @ CHAIN_ARGS cfg
     @ map PStr [''--from'', KEY_NAME cfg, ''--fees'', FEES_DEFAULT cfg,
                 ''--keyring-backend'', KEYRING cfg, ''-y'']"

definition bond_failed :: "config \<Rightarrow> locals \<Rightarrow> string \<Rightarrow> response" where
  "bond_failed cfg L bond_out =
     (500, PDict
        [(''error'', PStr ''failed to bond provider''),
         (''detail'', PStr bond_out),
         (''cmd'', PList (bond_cmd cfg L)),
         (''inputs'', PDict
            [(''service'', service (inp L)),
             (''resolved_service'', resolved_service L),
             (''lookup_note'', PStr (lookup_note L)),
             (''bond'', PStr (bond (inp L))),
             (''keyring_backend'', PStr (KEYRING cfg)),
             (''fees'', PStr (FEES_DEFAULT cfg))]),
         (''pubkey'', pubkey_json (raw_pubkey L) (bech32_pubkey L)),
         (''user'', PStr (KEY_NAME cfg))])"

text \<open>
  Lines 381 to 452. The result is the early outcome, or \<open>(bond_cmd, bond_code, bond_out)\<close>
  as the rest of the handler sees them: \<^verbatim>\<open>None\<close>, 0 and the text of the skip when the bond
  was skipped.
\<close>

definition bond_phase ::
  "config \<Rightarrow> env \<Rightarrow> locals \<Rightarrow> event list
     \<Rightarrow> ((exn + response) + pyval \<times> int \<times> string) \<times> event list" where
  "bond_phase cfg e L tr =
     (case check_existing cfg e L tr of
        ((skip_bond, skipped_out), tr1) \<Rightarrow>
          if \<not> skip_bond then
            (case run_list e (bond_cmd cfg L) tr1 of
               (Inl x, tr2) \<Rightarrow> (Inl (Inl x), tr2)
             | (Inr (bond_code, bond_out), tr2) \<Rightarrow>
                 if bond_code \<noteq> 0 then (Inl (Inr (bond_failed cfg L bond_out)), tr2)
                 else (Inr (PList (bond_cmd cfg L), bond_code, bond_out), tr2 @ [Sleep 2]))
          else (Inr (PNone, 0, skipped_out), tr1))"

subsection \<open>The account sequence\<close>

definition acct_cmd :: "config \<Rightarrow> locals \<Rightarrow> pyval list" where
  "acct_cmd cfg L =
     map PStr [''arkeod'', ''--home'', ARKEOD_HOME cfg, ''query'', ''auth'', ''account'',
               bech32_pubkey L, ''-o'', ''json'']
     @ (if ARKEOD_NODE cfg \<noteq> [] then [PStr ''--node'', PStr (ARKEOD_NODE cfg)] else [])"

text \<open>\<open>seq_val\<close> of the parsed account, \<^verbatim>\<open>None\<close> when it is not where it is looked for.\<close>

definition sequence_of :: "pyval \<Rightarrow> pyval" where
  "sequence_of acct =
     (case acct of
        PDict a \<Rightarrow>
          (case py_or (py_or (dict_get a ''account'') (dict_get a ''result'')) (PDict []) of
             PDict account_info \<Rightarrow>
               (case py_or (dict_get account_info ''value'') (PDict account_info) of
                  PDict val \<Rightarrow> dict_get val ''sequence''
                | _ \<Rightarrow> PNone)
           | _ \<Rightarrow> PNone)
      | _ \<Rightarrow> PNone)"

text \<open>
  One pass through the body of the loop, which the handler has twice word for word (lines 457
  to 475 and 529 to 547): the sequence arguments when the query gave a sequence. Every
  exception in it is caught.
\<close>

definition query_sequence ::
  "config \<Rightarrow> env \<Rightarrow> locals \<Rightarrow> event list \<Rightarrow> pyval list option \<times> event list" where
  "query_sequence cfg e L tr =
     (case run_list e (acct_cmd cfg L) tr of
        (Inl x, tr1) \<Rightarrow> (None, tr1)
      | (Inr (code, acct_out), tr1) \<Rightarrow>
          if code = 0 then
            (case json_loads e acct_out of
               Loaded acct \<Rightarrow>
                 if sequence_of acct \<noteq> PNone
                 then (Some [PStr ''--sequence'', PStr (py_str (py_repr e) (sequence_of acct))], tr1)
                 else (None, tr1)
             | JSONDecodeError \<Rightarrow> (None, tr1)
             | OtherError \<Rightarrow> (None, tr1))
          else (None, tr1))"

text \<open>
  \<^verbatim>\<open>for _ in range(n)\<close> around it, with the second of sleep after a pass without result. The
  sequence arguments stay empty when no pass gives one.
\<close>

fun fetch_sequence ::
  "config \<Rightarrow> env \<Rightarrow> locals \<Rightarrow> nat \<Rightarrow> event list \<Rightarrow> pyval list \<times> event list" where
  "fetch_sequence cfg e L 0 tr = ([], tr)"
| "fetch_sequence cfg e L (Suc n) tr =
     (case query_sequence cfg e L tr of
        (Some arg, tr1) \<Rightarrow> (arg, tr1)
      | (None, tr1) \<Rightarrow> fetch_sequence cfg e L n (tr1 @ [Sleep 1]))"

subsection \<open>The metadata update and the retry on a sequence mismatch\<close>

definition mod_cmd_base :: "config \<Rightarrow> locals \<Rightarrow> pyval list" where
  "mod_cmd_base cfg L =
     map PStr [''arkeod'', ''--home'', ARKEOD_HOME cfg, ''tx'', ''arkeo'', ''mod-provider'',
               bech32_pubkey L]
     @ [resolved_service L, sentinel_uri (inp L), PStr (metadata_nonce (inp L)),
        PStr (status (inp L)), PStr (min_contract_dur (inp L)), PStr (max_contract_dur (inp L)),
        subscription_rates (inp L), pay_as_you_go_rates (inp L), PStr (settlement_dur (inp L))]
     @ NODE_ARGS cfg @ CHAIN_ARGS cfg
     @ map PStr [''--from'', KEY_NAME cfg, ''--fees'', FEES_DEFAULT cfg,
                 ''--keyring-backend'', KEYRING cfg, ''-y'']"

text \<open>\<^verbatim>\<open>cmd.index(v)\<close>: the first position of \<open>v\<close>, \<open>None\<close> for \<^verbatim>\<open>ValueError\<close>.\<close>

fun index_of :: "pyval \<Rightarrow> pyval list \<Rightarrow> nat option" where
  "index_of v [] = None"
| "index_of v (x # xs) =
     (if x = v then Some 0 else (case index_of v xs of None \<Rightarrow> None | Some i \<Rightarrow> Some (Suc i)))"

text \<open>The command with the sequence arguments put in just before the first \<^verbatim>\<open>--from\<close>.\<close>

definition with_sequence :: "pyval list \<Rightarrow> pyval list \<Rightarrow> pyval list" where
  "with_sequence base seq_arg =
     (let insert_at = (case index_of (PStr ''--from'') base of Some i \<Rightarrow> i | None \<Rightarrow> length base)
      in take insert_at base @ seq_arg @ drop insert_at base)"

definition run_mod_with_sequence ::
  "env \<Rightarrow> pyval list \<Rightarrow> pyval list \<Rightarrow> event list
     \<Rightarrow> (exn + pyval list \<times> int \<times> string) \<times> event list" where
  "run_mod_with_sequence e base seq_arg tr =
     (case run_list e (with_sequence base seq_arg) tr of
        (Inl x, tr1) \<Rightarrow> (Inl x, tr1)
      | (Inr (code, out), tr1) \<Rightarrow> (Inr (with_sequence base seq_arg, code, out), tr1))"

text \<open>
  Lines 518 to 549, after a first submission that gave \<open>first\<close>: when its output has the
  mismatch text, sleep a second, take the sequence from the output or else ask for it up to
  twice, and submit once more.
\<close>

definition retry_on_mismatch ::
  "config \<Rightarrow> env \<Rightarrow> locals \<Rightarrow> pyval list \<times> int \<times> string \<Rightarrow> event list
     \<Rightarrow> (exn + pyval list \<times> int \<times> string) \<times> event list" where
  "retry_on_mismatch cfg e L first tr =
     (case first of
        (mod_cmd, mod_code, mod_out) \<Rightarrow>
          if contains mod_out ''account sequence mismatch'' then
            (case (case search_expected mod_out of
                     Some g \<Rightarrow> ([PStr ''--sequence'', PStr g], tr @ [Sleep 1])
                   | None \<Rightarrow> fetch_sequence cfg e L 2 (tr @ [Sleep 1])) of
               (retry_seq, tr1) \<Rightarrow> run_mod_with_sequence e (mod_cmd_base cfg L) retry_seq tr1)
          else (Inr first, tr))"

text \<open>Lines 454 to 516: the sequence is asked for up to three times, then the first submission.\<close>

definition first_submission ::
  "config \<Rightarrow> env \<Rightarrow> locals \<Rightarrow> event list
     \<Rightarrow> (exn + pyval list \<times> int \<times> string) \<times> event list" where
  "first_submission cfg e L tr =
     (case fetch_sequence cfg e L 3 tr of
        (sequence_arg, tr1) \<Rightarrow> run_mod_with_sequence e (mod_cmd_base cfg L) sequence_arg tr1)"

text \<open>Lines 454 to 549: \<open>(mod_cmd, mod_code, mod_out)\<close> as they are at line 551.\<close>

definition submit_mod ::
  "config \<Rightarrow> env \<Rightarrow> locals \<Rightarrow> event list
     \<Rightarrow> (exn + pyval list \<times> int \<times> string) \<times> event list" where
  "submit_mod cfg e L tr =
     (case first_submission cfg e L tr of
        (Inl x, tr2) \<Rightarrow> (Inl x, tr2)
      | (Inr first, tr2) \<Rightarrow> retry_on_mismatch cfg e L first tr2)"

definition bond_tx_json :: "int \<Rightarrow> string \<Rightarrow> pyval" where
  "bond_tx_json bond_code bond_out = PDict [(''exit_code'', PInt bond_code), (''output'', PStr bond_out)]"

definition mod_failed ::
  "config \<Rightarrow> locals \<Rightarrow> pyval \<times> int \<times> string \<Rightarrow> pyval list \<Rightarrow> string \<Rightarrow> response" where
  "mod_failed cfg L B mod_cmd mod_out =
     (500, PDict
        [(''error'', PStr ''failed to mod provider''),
         (''detail'', PStr mod_out),
         (''cmd'', PList mod_cmd),
         (''inputs'', PDict
            [(''service'', service (inp L)),
             (''resolved_service'', resolved_service L),
             (''sentinel_uri'', sentinel_uri (inp L)),
             (''metadata_nonce'', PStr (metadata_nonce (inp L))),
             (''status'', PStr (status (inp L))),
             (''min_contract_dur'', PStr (min_contract_dur (inp L))),
             (''max_contract_dur'', PStr (max_contract_dur (inp L))),
             (''subscription_rates'', subscription_rates (inp L)),
             (''pay_as_you_go_rates'', pay_as_you_go_rates (inp L)),
             (''settlement_dur'', PStr (settlement_dur (inp L))),
             (''bond'', PStr (bond (inp L))),
             (''keyring_backend'', PStr (KEYRING cfg)),
             (''fees'', PStr (FEES_DEFAULT cfg))]),
         (''pubkey'', pubkey_json (raw_pubkey L) (bech32_pubkey L)),
         (''user'', PStr (KEY_NAME cfg)),
         (''bond_tx'', bond_tx_json (fst (snd B)) (snd (snd B)))])"

definition submitted ::
  "config \<Rightarrow> locals \<Rightarrow> pyval \<times> int \<times> string \<Rightarrow> pyval list \<Rightarrow> int \<Rightarrow> string \<Rightarrow> response" where
  "submitted cfg L B mod_cmd mod_code mod_out =
     (200, PDict
        [(''status'', PStr ''bond_and_mod_submitted''),
         (''user'', PStr (KEY_NAME cfg)),
         (''inputs'', PDict
            [(''service'', service (inp L)),
             (''resolved_service'', resolved_service L),
             (''lookup_note'', PStr (lookup_note L)),
             (''sentinel_uri'', sentinel_uri (inp L)),
             (''metadata_nonce'', PStr (metadata_nonce (inp L))),
             (''status'', PStr (status (inp L))),
             (''min_contract_dur'', PStr (min_contract_dur (inp L))),
             (''max_contract_dur'', PStr (max_contract_dur (inp L))),
             (''subscription_rates'', subscription_rates (inp L)),
             (''pay_as_you_go_rates'', pay_as_you_go_rates (inp L)),
             (''settlement_dur'', PStr (settlement_dur (inp L))),
             (''bond'', PStr (bond (inp L))),
             (''keyring_backend'', PStr (KEYRING cfg)),
             (''fees'', PStr (FEES_DEFAULT cfg))]),
         (''pubkey'', pubkey_json (raw_pubkey L) (bech32_pubkey L)),
         (''bond_cmd'', fst B),
         (''mod_cmd'', PList mod_cmd),
         (''bond_tx'', bond_tx_json (fst (snd B)) (snd (snd B))),
         (''mod_tx'', PDict [(''exit_code'', PInt mod_code), (''output'', PStr mod_out)])])"

text \<open>Lines 454 to 604: the metadata update and the response, \<open>B\<close> being the bond outcome.\<close>

definition mod_phase ::
  "config \<Rightarrow> env \<Rightarrow> locals \<Rightarrow> pyval \<times> int \<times> string \<Rightarrow> event list
     \<Rightarrow> (exn + response) \<times> event list" where
  "mod_phase cfg e L B tr =
     (case submit_mod cfg e L tr of
        (Inl x, tr1) \<Rightarrow> (Inl x, tr1)
      | (Inr (mod_cmd, mod_code, mod_out), tr1) \<Rightarrow>
          if mod_code \<noteq> 0 then (Inr (mod_failed cfg L B mod_cmd mod_out), tr1)
          else (Inr (submitted cfg L B mod_cmd mod_code mod_out), tr1))"

text \<open>The whole handler: what leaves it, and the events of the request.\<close>

definition bond_and_mod_provider ::
  "config \<Rightarrow> env \<Rightarrow> pyval \<Rightarrow> (exn + response) \<times> event list" where
  "bond_and_mod_provider cfg e body =
     (case prologue cfg e body of
        (Inl early, tr) \<Rightarrow> (early, tr)
      | (Inr L, tr) \<Rightarrow>
          (case bond_phase cfg e L tr of
             (Inl early, tr1) \<Rightarrow> (early, tr1)
           | (Inr B, tr1) \<Rightarrow> mod_phase cfg e L B tr1))"

section \<open>Reading a trace\<close>

text \<open>
  The transactions are the commands \<^verbatim>\<open>arkeod --home H tx arkeo NAME ...\<close>; the name is
  \<^verbatim>\<open>bond-provider\<close> for the bond and \<^verbatim>\<open>mod-provider\<close> for the metadata update. Every other
  command of the handler is a query or a key command and has no name here.
\<close>

fun tx_name :: "event \<Rightarrow> string option" where
  "tx_name (Exec (a # b # c # t # m # name # rest)) =
     (if t = ''tx'' \<and> m = ''arkeo'' then Some name else None)"
| "tx_name ev = None"

definition bond_txs :: "event list \<Rightarrow> event list" where
  "bond_txs tr = filter (\<lambda>ev. tx_name ev = Some ''bond-provider'') tr"

definition mod_txs :: "event list \<Rightarrow> event list" where
  "mod_txs tr = filter (\<lambda>ev. tx_name ev = Some ''mod-provider'') tr"

text \<open>The commands among some events.\<close>

fun is_exec :: "event \<Rightarrow> bool" where
  "is_exec (Exec ss) = True"
| "is_exec (Sleep n) = False"

definition execs :: "event list \<Rightarrow> event list" where
  "execs evs = filter is_exec evs"

text \<open>Events that are an account query of the request or a sleep of one second.\<close>

definition polling :: "config \<Rightarrow> locals \<Rightarrow> event list \<Rightarrow> bool" where
  "polling cfg L evs =
     list_all (\<lambda>ev. case ev of Exec ss \<Rightarrow> strs_of (acct_cmd cfg L) = Some ss | Sleep n \<Rightarrow> n = 1) evs"

text \<open>A field of a JSON object in a response.\<close>

fun field :: "pyval \<Rightarrow> string \<Rightarrow> pyval option" where
  "field (PDict kvs) k = map_of kvs k"
| "field v k = None"

text \<open>
  The HTTP status and a field of the body of what leaves the handler; there is neither when
  an exception leaves it.
\<close>

fun status_of :: "exn + response \<Rightarrow> nat option" where
  "status_of (Inr (st, b)) = Some st"
| "status_of (Inl x) = None"

fun body_field :: "exn + response \<Rightarrow> string \<Rightarrow> pyval option" where
  "body_field (Inr (st, b)) k = field b k"
| "body_field (Inl x) k = None"

section \<open>Scenarios\<close>

text \<open>
  Concrete settings and worlds on which the handler is run below. A scripted world answers a
  command by the first word of the script that occurs in it: the n-th such command gets the
  n-th answer, and a command without an answer raises.
\<close>

definition cfg0 :: config where
  "cfg0 = \<lparr> ARKEOD_HOME = ''/root/.arkeod'', KEY_NAME = ''provider'', KEYRING = ''test'',
            ARKEOD_NODE = ''tcp://node:26657'', CHAIN_ID = '''',
            SENTINEL_URI_DEFAULT = ''http://127.0.0.1:3636/metadata.json'',
            METADATA_NONCE_DEFAULT = ''1'', BOND_DEFAULT = ''1'', FEES_DEFAULT = ''200uarkeo'' \<rparr>"

definition answers :: "(string \<times> proc list) list \<Rightarrow> string list \<Rightarrow> (string \<times> proc list) option" where
  "answers script cmd = find (\<lambda>(tok, rs). tok \<in> set cmd) script"

definition scripted :: "(string \<times> proc list) list \<Rightarrow> event list \<Rightarrow> string list \<Rightarrow> proc" where
  "scripted script tr cmd =
     (case answers script cmd of
        None \<Rightarrow> Raised
      | Some (tok, rs) \<Rightarrow>
          (let n = length (filter (\<lambda>ev. case ev of
                                         Exec ss \<Rightarrow> map_option fst (answers script ss) = Some tok
                                       | Sleep k \<Rightarrow> False) tr)
           in if n < length rs then rs ! n else Raised))"

definition demo_json :: "string \<Rightarrow> loaded" where
  \<open>demo_json s =
     (case map_of
        [(''{"key":"pk1"}'', PDict [(''key'', PStr ''pk1'')]),
         (''{"key":null}'', PDict [(''key'', PNone)]),
         (''[]'', PList []),
         (''{"services":[]}'', PDict [(''services'', PList [])]),
         (''{"account":{"sequence":"5"}}'', PDict [(''account'', PDict [(''sequence'', PStr ''5'')])])] s of
        None \<Rightarrow> JSONDecodeError
      | Some v \<Rightarrow> Loaded v)\<close>

definition demo_env :: "(string \<times> proc list) list \<Rightarrow> env" where
  "demo_env script = \<lparr> world = scripted script, json_loads = demo_json, py_repr = (\<lambda>v. '''') \<rparr>"

text \<open>The key \<^verbatim>\<open>pk1\<close> with the encoded form \<^verbatim>\<open>addr1\<close>.\<close>

definition keys_ok :: "(string \<times> proc list) list" where
  \<open>keys_ok =
     [(''keys'', [Exited 0 ''{"key":"pk1"}'']),
      (''pubkey-raw'', [Exited 0 ''Address: 00\<newline>Bech32 Acc: addr1\<newline>''])]\<close>

text \<open>
  The request for service \<^verbatim>\<open>7\<close>, which the catalog does not know, and what the handler has
  worked out for it when it reaches the bond lookup.
\<close>

definition body7 :: pyval where
  "body7 = PDict [(''service'', PStr ''7'')]"

definition inputs7 :: inputs where
  "inputs7 =
     \<lparr> service = PStr ''7'', bond = ''1'',
       sentinel_uri = PStr ''http://127.0.0.1:3636/metadata.json'', metadata_nonce = ''1'',
       status = ''1'', min_contract_dur = ''5'', max_contract_dur = ''432000'',
       subscription_rates = PStr ''200uarkeo'', pay_as_you_go_rates = PStr ''200uarkeo'',
       settlement_dur = ''1000'' \<rparr>"

definition locals7 :: locals where
  "locals7 =
     \<lparr> inp = inputs7, resolved_service = PStr ''7'',
       lookup_note = ''could not resolve service id 7 to name'',
       raw_pubkey = ''pk1'', bech32_pubkey = ''addr1'' \<rparr>"

definition catalog_ss :: "string list" where
  "catalog_ss = [''arkeod'', ''--home'', ''/root/.arkeod'', ''--node'', ''tcp://node:26657'',
                 ''query'', ''arkeo'', ''all-services'', ''-o'', ''json'']"

definition keys_ss :: "string list" where
  "keys_ss = [''arkeod'', ''--home'', ''/root/.arkeod'', ''keys'', ''show'', ''provider'', ''-p'',
              ''--keyring-backend'', ''test'']"

definition raw_ss :: "string list" where
  "raw_ss = [''arkeod'', ''debug'', ''pubkey-raw'', ''pk1'']"

definition lookup_ss :: "string list" where
  "lookup_ss = [''arkeod'', ''--home'', ''/root/.arkeod'', ''query'', ''arkeo'', ''provider'',
                ''addr1'', ''7'', ''-o'', ''json'', ''--node'', ''tcp://node:26657'']"

definition bond_ss :: "string list" where
  "bond_ss = [''arkeod'', ''--home'', ''/root/.arkeod'', ''tx'', ''arkeo'', ''bond-provider'',
              ''addr1'', ''7'', ''1'', ''--node'', ''tcp://node:26657'', ''--from'', ''provider'',
              ''--fees'', ''200uarkeo'', ''--keyring-backend'', ''test'', ''-y'']"

definition acct_ss :: "string list" where
  "acct_ss = [''arkeod'', ''--home'', ''/root/.arkeod'', ''query'', ''auth'', ''account'',
              ''addr1'', ''-o'', ''json'', ''--node'', ''tcp://node:26657'']"

definition mod_ss :: "string list \<Rightarrow> string list" where
  "mod_ss seq =
     [''arkeod'', ''--home'', ''/root/.arkeod'', ''tx'', ''arkeo'', ''mod-provider'', ''addr1'',
      ''7'', ''http://127.0.0.1:3636/metadata.json'', ''1'', ''1'', ''5'', ''432000'',
      ''200uarkeo'', ''200uarkeo'', ''1000'', ''--node'', ''tcp://node:26657'']
     @ seq @ [''--from'', ''provider'', ''--fees'', ''200uarkeo'', ''--keyring-backend'', ''test'',
              ''-y'']"

definition trace7 :: "event list" where
  "trace7 = [Exec catalog_ss, Exec keys_ss, Exec raw_ss]"

text \<open>A world where the provider is on the chain already, and one where it is not and the bond
  is refused.\<close>

definition env_exists :: env where
  \<open>env_exists = demo_env (keys_ok @
     [(''all-services'', [Exited 0 ''{"services":[]}'']),
      (''account'', [Exited 0 ''{"account":{"sequence":"5"}}'']),
      (''mod-provider'', [Exited 0 ''code: 0'']),
      (''provider'', [Exited 0 ''{}''])])\<close>

definition env_refused :: env where
  \<open>env_refused = demo_env (keys_ok @
     [(''all-services'', [Exited 0 ''{"services":[]}'']),
      (''bond-provider'', [Exited 1 ''insufficient funds'']),
      (''provider'', [Exited 1 ''not found''])])\<close>

text \<open>
  Worlds where the provider exists and the metadata update meets a sequence mismatch: one that
  names the expected sequence and lets the second submission through, and one that names no
  sequence, fails the two account queries of the recovery and refuses the second submission
  too. In the last world no account query gives a sequence.
\<close>

definition env_mismatch :: env where
  \<open>env_mismatch = demo_env (keys_ok @
     [(''all-services'', [Exited 0 ''{"services":[]}'']),
      (''account'', [Exited 0 ''{"account":{"sequence":"5"}}'']),
      (''mod-provider'', [Exited 1 ''account sequence mismatch, expected 6, got 5'', Exited 0 ''code: 0'']),
      (''provider'', [Exited 0 ''{}''])])\<close>

definition env_stuck :: env where
  \<open>env_stuck = demo_env (keys_ok @
     [(''all-services'', [Exited 0 ''{"services":[]}'']),
      (''account'', [Exited 0 ''{"account":{"sequence":"5"}}'', Exited 1 ''timeout'', Exited 0 ''<html>'']),
      (''mod-provider'', [Exited 1 ''account sequence mismatch'', Exited 1 ''account sequence mismatch'']),
      (''provider'', [Exited 0 ''{}''])])\<close>

definition env_noseq :: env where
  \<open>env_noseq = demo_env (keys_ok @
     [(''all-services'', [Exited 0 ''{"services":[]}'']),
      (''account'', [Exited 1 ''connection refused'', Exited 0 ''<html>'', Raised]),
      (''mod-provider'', [Exited 0 ''code: 0'']),
      (''provider'', [Exited 0 ''{}''])])\<close>

definition skipped7 :: "pyval \<times> int \<times> string" where
  "skipped7 = (PNone, 0, ''skipped: provider already exists'')"


text \<open>
  Worlds where the key command fails, where it prints an object whose key is null or a JSON
  array, and where the catalog prints a JSON array.
\<close>

definition env_nokey :: env where
  \<open>env_nokey = demo_env
     [(''all-services'', [Exited 0 ''{"services":[]}'']),
      (''keys'', [Exited 1 ''Error: provider is not a valid name or address: key not found''])]\<close>

definition env_nullkey :: env where
  \<open>env_nullkey = demo_env
     [(''all-services'', [Exited 0 ''{"services":[]}'']),
      (''keys'', [Exited 0 ''{"key":null}''])]\<close>

definition env_listkey :: env where
  \<open>env_listkey = demo_env
     [(''all-services'', [Exited 0 ''{"services":[]}'']),
      (''keys'', [Exited 0 ''[]''])]\<close>

definition env_array :: env where
  \<open>env_array = demo_env (keys_ok @
     [(''all-services'', [Exited 0 ''[]'']),
      (''account'', [Exited 0 ''{"account":{"sequence":"5"}}'']),
      (''mod-provider'', [Exited 0 ''code: 0'']),
      (''provider'', [Exited 0 ''{}''])])\<close>







section \<open>Commands and traces of the phases\<close>

lemma strs_of_map_PStr [simp]: "strs_of (map PStr ss) = Some ss"
  by (induction ss) auto

lemma strs_of_Some_iff: "strs_of xs = Some ss \<longleftrightarrow> xs = map PStr ss"
proof
  show "strs_of xs = Some ss \<Longrightarrow> xs = map PStr ss"
    by (induction xs arbitrary: ss rule: strs_of.induct) (auto split: option.splits)
qed auto

lemma run_list_strs:
  "run_list e (map PStr ss) tr =
     (case world e tr ss of
        Exited c out \<Rightarrow> (Inr (c, out), tr @ [Exec ss])
      | Raised \<Rightarrow> (Inl RunError, tr @ [Exec ss]))"
  by (simp add: run_list_def)

lemma run_list_Inr:
  "run_list e cmd tr = (Inr (c, out), tr') \<Longrightarrow>
     \<exists>ss. cmd = map PStr ss \<and> world e tr ss = Exited c out \<and> tr' = tr @ [Exec ss]"
  by (auto simp: run_list_def strs_of_Some_iff split: option.splits proc.splits)

lemma run_list_trace:
  "run_list e cmd tr = (r, tr') \<Longrightarrow> tr' = tr \<or> (\<exists>ss. cmd = map PStr ss \<and> tr' = tr @ [Exec ss])"
  by (auto simp: run_list_def strs_of_Some_iff split: option.splits proc.splits)

lemma derive_pubkeys_trace:
  "derive_pubkeys cfg e user kb tr = (r, tr') \<Longrightarrow>
     \<exists>evs. tr' = tr @ evs \<and> list_all (\<lambda>ev. tx_name ev = None) evs"
  by (auto simp: derive_pubkeys_def run_list_def split: proc.splits sum.splits if_splits)

lemma lookup_service_trace:
  "lookup_service_name_by_id cfg e sid tr = (r, tr') \<Longrightarrow>
     \<exists>evs. tr' = tr @ evs \<and> list_all (\<lambda>ev. tx_name ev = None) evs"
  by (auto simp: lookup_service_name_by_id_def run_list_def
           split: proc.splits sum.splits if_splits option.splits pyval.splits loaded.splits)

lemma resolve_service_trace:
  "resolve_service cfg e svc tr = (r, tr') \<Longrightarrow>
     \<exists>evs. tr' = tr @ evs \<and> list_all (\<lambda>ev. tx_name ev = None) evs"
  by (auto simp: resolve_service_def split: pyval.splits if_splits prod.splits sum.splits
           dest: lookup_service_trace)

lemma prologue_trace:
  "prologue cfg e body = (r, tr) \<Longrightarrow> list_all (\<lambda>ev. tx_name ev = None) tr"
  by (auto simp: prologue_def Let_def split: pyval.splits if_splits prod.splits sum.splits
           dest!: resolve_service_trace derive_pubkeys_trace)


lemma check_existing_trace:
  "check_existing cfg e L tr = (r, tr1) \<Longrightarrow>
     \<exists>evs. tr1 = tr @ evs \<and> list_all (\<lambda>ev. tx_name ev = None) evs"
  by (auto simp: check_existing_def run_list_def strs_of_Some_iff lookup_cmd_def Cons_eq_map_conv
           split: option.splits proc.splits if_splits)

lemma bond_cmd_tx: "bond_cmd cfg L = map PStr ss \<Longrightarrow> tx_name (Exec ss) = Some ''bond-provider''"
  by (auto simp: bond_cmd_def Cons_eq_map_conv)

lemma mod_cmd_base_tx: "mod_cmd_base cfg L = map PStr ss \<Longrightarrow> tx_name (Exec ss) = Some ''mod-provider''"
  by (auto simp: mod_cmd_base_def Cons_eq_map_conv)

lemma acct_cmd_strs: "\<exists>ss. acct_cmd cfg L = map PStr ss \<and> tx_name (Exec ss) = None"
  by (auto simp: acct_cmd_def Cons_eq_map_conv)

lemma query_sequence_cases:
  "query_sequence cfg e L tr = (r, tr1) \<Longrightarrow>
     (\<exists>ss. strs_of (acct_cmd cfg L) = Some ss \<and> tr1 = tr @ [Exec ss]) \<and>
     (r = None \<or> (\<exists>s. r = Some [PStr ''--sequence'', PStr s]))"
  using acct_cmd_strs [of cfg L]
  by (auto simp: query_sequence_def run_list_def
           split: option.splits proc.splits if_splits loaded.splits)

lemma fetch_sequence_trace:
  "fetch_sequence cfg e L n tr = (seq, tr') \<Longrightarrow>
     \<exists>evs. tr' = tr @ evs \<and> polling cfg L evs \<and> length (execs evs) \<le> n \<and>
           (seq = [] \<and> length (execs evs) = n \<or> (\<exists>s. seq = [PStr ''--sequence'', PStr s]))"
proof (induction n arbitrary: tr)
  case 0
  then show ?case by (simp add: polling_def execs_def)
next
  case (Suc n)
  obtain r tr1 where q: "query_sequence cfg e L tr = (r, tr1)" by (cases "query_sequence cfg e L tr")
  from query_sequence_cases [OF q] obtain ss where
    ss: "strs_of (acct_cmd cfg L) = Some ss" "tr1 = tr @ [Exec ss]"
    and r: "r = None \<or> (\<exists>s. r = Some [PStr ''--sequence'', PStr s])" by blast
  show ?case
  proof (cases r)
    case None
    with Suc.prems q have "fetch_sequence cfg e L n (tr1 @ [Sleep 1]) = (seq, tr')" by simp
    from Suc.IH [OF this] obtain evs where
      evs: "tr' = (tr1 @ [Sleep 1]) @ evs" "polling cfg L evs" "length (execs evs) \<le> n"
        "seq = [] \<and> length (execs evs) = n \<or> (\<exists>s. seq = [PStr ''--sequence'', PStr s])" by blast
    let ?all = "Exec ss # Sleep 1 # evs"
    have "tr' = tr @ ?all" using evs(1) ss(2) by simp
    moreover have "polling cfg L ?all" using evs(2) ss(1) by (simp add: polling_def)
    moreover have "length (execs ?all) = Suc (length (execs evs))" by (simp add: execs_def)
    ultimately show ?thesis using evs(3,4) by (intro exI [of _ ?all]) auto
  next
    case (Some arg)
    with Suc.prems q have "seq = arg" "tr' = tr1" by simp_all
    moreover from r Some obtain s where "arg = [PStr ''--sequence'', PStr s]" by auto
    ultimately show ?thesis using ss
      by (intro exI [of _ "[Exec ss]"]) (simp add: polling_def execs_def)
  qed
qed

lemma with_sequence_nil [simp]: "with_sequence base [] = base"
  by (simp add: with_sequence_def)

lemma tx_name_take6: "tx_name ev = (case ev of Exec ss \<Rightarrow> tx_name (Exec (take 6 ss)) | Sleep n \<Rightarrow> None)"
  by (induction ev rule: tx_name.induct) simp_all

lemma index_mod_base:
  "index_of (PStr ''--from'') (mod_cmd_base cfg L) = Some i \<Longrightarrow>
     i = 2 \<and> ARKEOD_HOME cfg = ''--from'' \<or> 6 \<le> i"
  by (auto simp: mod_cmd_base_def split: if_splits option.splits)

lemma index_of_less: "index_of v xs = Some i \<Longrightarrow> i < length xs"
  by (induction xs arbitrary: i) (auto split: if_splits option.splits)

lemma index_of_None: "index_of v xs = None \<Longrightarrow> v \<notin> set xs"
  by (induction xs) (auto split: if_splits option.splits)

lemma mod_base_has_from: "index_of (PStr ''--from'') (mod_cmd_base cfg L) \<noteq> None"
proof
  assume "index_of (PStr ''--from'') (mod_cmd_base cfg L) = None"
  from index_of_None [OF this] show False by (simp add: mod_cmd_base_def)
qed

lemma take6_mod_base:
  "take 6 (mod_cmd_base cfg L) =
     map PStr [''arkeod'', ''--home'', ARKEOD_HOME cfg, ''tx'', ''arkeo'', ''mod-provider'']"
  by (simp add: mod_cmd_base_def)

lemma inj_PStr: "inj PStr"
  by (simp add: inj_def)

lemma map_PStr_eq: "map PStr xs = map PStr ys \<longleftrightarrow> xs = ys"
  by (rule inj_map_eq_map [OF inj_PStr])

lemma take2_mod_base: "take 2 (mod_cmd_base cfg L) = map PStr [''arkeod'', ''--home'']"
  by (simp add: mod_cmd_base_def)

lemma take4_drop2_mod_base:
  "take 4 (drop 2 (mod_cmd_base cfg L)) = map PStr [ARKEOD_HOME cfg, ''tx'', ''arkeo'', ''mod-provider'']"
  by (simp add: mod_cmd_base_def)

lemma with_sequence_tx:
  assumes "with_sequence (mod_cmd_base cfg L) seq = map PStr ss"
      and "seq = [] \<or> (\<exists>s. seq = [PStr ''--sequence'', PStr s])"
  shows "tx_name (Exec ss) \<noteq> Some ''bond-provider''"
proof (cases "seq = []")
  case True
  with assms(1) have "mod_cmd_base cfg L = map PStr ss" by simp
  from mod_cmd_base_tx [OF this] show ?thesis by simp
next
  case False
  with assms(2) obtain s where seq: "seq = [PStr ''--sequence'', PStr s]" by blast
  obtain i where i: "index_of (PStr ''--from'') (mod_cmd_base cfg L) = Some i"
    using mod_base_has_from [of cfg L] by auto
  have ws: "map PStr ss = take i (mod_cmd_base cfg L) @ seq @ drop i (mod_cmd_base cfg L)"
    using assms(1) i by (simp add: with_sequence_def)
  have t6: "map PStr (take 6 ss) = take 6 (map PStr ss)" by (simp add: take_map)
  from index_mod_base [OF i] show ?thesis
  proof
    assume two: "i = 2 \<and> ARKEOD_HOME cfg = ''--from''"
    have "take 6 (map PStr ss) =
            take 2 (mod_cmd_base cfg L) @ seq @ take 2 (take 4 (drop 2 (mod_cmd_base cfg L)))"
      using two by (simp add: ws seq take2_mod_base)
    also have "\<dots> = map PStr [''arkeod'', ''--home'', ''--sequence'', s, ARKEOD_HOME cfg, ''tx'']"
      unfolding take2_mod_base take4_drop2_mod_base seq by simp
    finally have "take 6 ss = [''arkeod'', ''--home'', ''--sequence'', s, ARKEOD_HOME cfg, ''tx'']"
      using t6 by (simp only: map_PStr_eq)
    then show ?thesis using two tx_name_take6 [of "Exec ss"] by simp
  next
    assume six: "6 \<le> i"
    have len: "i < length (mod_cmd_base cfg L)" using i by (rule index_of_less)
    have "take 6 (map PStr ss) = take 6 (mod_cmd_base cfg L)" using six len by (simp add: ws)
    then have "take 6 ss = [''arkeod'', ''--home'', ARKEOD_HOME cfg, ''tx'', ''arkeo'', ''mod-provider'']"
      using t6 by (simp only: take6_mod_base map_PStr_eq)
    then show ?thesis using tx_name_take6 [of "Exec ss"] by simp
  qed
qed

lemma ex_map_PStr: "(\<exists>ss. xs = map PStr ss) \<longleftrightarrow> list_all (\<lambda>v. \<exists>s. v = PStr s) xs"
proof (induction xs)
  case Nil
  then show ?case by simp
next
  case (Cons x xs)
  then show ?case by (auto simp: Cons_eq_map_conv)
qed

lemma lookup_strs_resolved:
  "lookup_cmd cfg L = map PStr ls \<Longrightarrow> \<exists>r. resolved_service L = PStr r"
  by (auto simp: lookup_cmd_def Cons_eq_map_conv)

lemma bond_cmd_strs:
  "resolved_service L = PStr r \<Longrightarrow> \<exists>ss. bond_cmd cfg L = map PStr ss"
  unfolding ex_map_PStr by (simp add: bond_cmd_def NODE_ARGS_def CHAIN_ARGS_def)

lemma polling_no_tx: "polling cfg L evs \<Longrightarrow> list_all (\<lambda>ev. tx_name ev = None) evs"
  unfolding polling_def
proof (induction evs)
  case Nil
  then show ?case by simp
next
  case (Cons ev evs)
  obtain qs where qs: "acct_cmd cfg L = map PStr qs" "tx_name (Exec qs) = None"
    using acct_cmd_strs [of cfg L] by blast
  from Cons show ?case using qs by (cases ev) auto
qed

lemma run_mod_cases:
  "run_mod_with_sequence e base seq tr = (r, tr') \<Longrightarrow>
     (tr' = tr \<and> r = Inl TypeError) \<or>
     (\<exists>ss. with_sequence base seq = map PStr ss \<and> tr' = tr @ [Exec ss] \<and>
        (r = Inl RunError \<and> world e tr ss = Raised \<or>
         (\<exists>c out. r = Inr (with_sequence base seq, c, out) \<and> world e tr ss = Exited c out)))"
  by (auto simp: run_mod_with_sequence_def run_list_def strs_of_Some_iff
           split: option.splits proc.splits)

lemma first_submission_trace:
  assumes "first_submission cfg e L tr = (r, tr')"
  shows "\<exists>evs. tr' = tr @ evs \<and> list_all (\<lambda>ev. tx_name ev \<noteq> Some ''bond-provider'') evs"
proof -
  obtain seq tr1 where f: "fetch_sequence cfg e L 3 tr = (seq, tr1)"
    by (cases "fetch_sequence cfg e L 3 tr")
  from fetch_sequence_trace [OF f] obtain qs where
    qs: "tr1 = tr @ qs" "polling cfg L qs"
    and seq: "seq = [] \<or> (\<exists>s. seq = [PStr ''--sequence'', PStr s])" by blast
  have nb: "list_all (\<lambda>ev. tx_name ev \<noteq> Some ''bond-provider'') qs"
    using polling_no_tx [OF qs(2)] by (simp add: list_all_iff)
  from assms f have "run_mod_with_sequence e (mod_cmd_base cfg L) seq tr1 = (r, tr')"
    by (simp add: first_submission_def)
  from run_mod_cases [OF this] show ?thesis
  proof
    assume "tr' = tr1 \<and> r = Inl TypeError"
    with qs nb show ?thesis by auto
  next
    assume "\<exists>ss. with_sequence (mod_cmd_base cfg L) seq = map PStr ss \<and> tr' = tr1 @ [Exec ss] \<and>
        (r = Inl RunError \<and> world e tr1 ss = Raised \<or>
         (\<exists>c out. r = Inr (with_sequence (mod_cmd_base cfg L) seq, c, out) \<and> world e tr1 ss = Exited c out))"
    then obtain ss where ss: "with_sequence (mod_cmd_base cfg L) seq = map PStr ss" "tr' = tr1 @ [Exec ss]"
      by blast
    from with_sequence_tx [OF ss(1) seq] have "tx_name (Exec ss) \<noteq> Some ''bond-provider''" .
    with ss(2) qs nb show ?thesis by (intro exI [of _ "qs @ [Exec ss]"]) simp
  qed
qed

lemma retry_trace:
  assumes "retry_on_mismatch cfg e L first tr = (r, tr')"
  shows "\<exists>evs. tr' = tr @ evs \<and> list_all (\<lambda>ev. tx_name ev \<noteq> Some ''bond-provider'') evs"
proof -
  obtain mod_cmd mod_code mod_out where first: "first = (mod_cmd, mod_code, mod_out)"
    by (cases first)
  show ?thesis
  proof (cases "contains mod_out ''account sequence mismatch''")
    case False
    with assms first show ?thesis by (simp add: retry_on_mismatch_def)
  next
    case True
    define rec where "rec = (case search_expected mod_out of
                     Some g \<Rightarrow> ([PStr ''--sequence'', PStr g], tr @ [Sleep 1])
                   | None \<Rightarrow> fetch_sequence cfg e L 2 (tr @ [Sleep 1]))"
    obtain seq tr1 where rec: "rec = (seq, tr1)" by (cases rec)
    have "\<exists>qs. tr1 = (tr @ [Sleep 1]) @ qs \<and> polling cfg L qs \<and>
               (seq = [] \<or> (\<exists>s. seq = [PStr ''--sequence'', PStr s]))"
    proof (cases "search_expected mod_out")
      case None
      with rec have "fetch_sequence cfg e L 2 (tr @ [Sleep 1]) = (seq, tr1)" by (simp add: rec_def)
      from fetch_sequence_trace [OF this] show ?thesis by blast
    next
      case (Some g)
      with rec show ?thesis by (intro exI [of _ "[]"]) (auto simp: rec_def polling_def)
    qed
    then obtain qs where qs: "tr1 = tr @ [Sleep 1] @ qs" "polling cfg L qs"
      and seq: "seq = [] \<or> (\<exists>s. seq = [PStr ''--sequence'', PStr s])" by auto
    have nb: "list_all (\<lambda>ev. tx_name ev \<noteq> Some ''bond-provider'') qs"
      using polling_no_tx [OF qs(2)] by (simp add: list_all_iff)
    have "run_mod_with_sequence e (mod_cmd_base cfg L) seq tr1 = (r, tr')"
      using assms first True rec by (simp add: retry_on_mismatch_def rec_def)
    from run_mod_cases [OF this] show ?thesis
    proof
      assume "tr' = tr1 \<and> r = Inl TypeError"
      with qs nb show ?thesis by (intro exI [of _ "Sleep 1 # qs"]) simp
    next
      assume "\<exists>ss. with_sequence (mod_cmd_base cfg L) seq = map PStr ss \<and> tr' = tr1 @ [Exec ss] \<and>
        (r = Inl RunError \<and> world e tr1 ss = Raised \<or>
         (\<exists>c out. r = Inr (with_sequence (mod_cmd_base cfg L) seq, c, out) \<and> world e tr1 ss = Exited c out))"
      then obtain ss where ss: "with_sequence (mod_cmd_base cfg L) seq = map PStr ss" "tr' = tr1 @ [Exec ss]"
        by blast
      from with_sequence_tx [OF ss(1) seq] have "tx_name (Exec ss) \<noteq> Some ''bond-provider''" .
      with ss(2) qs nb show ?thesis by (intro exI [of _ "Sleep 1 # qs @ [Exec ss]"]) simp
    qed
  qed
qed

lemma mod_phase_trace:
  assumes "mod_phase cfg e L B tr = (r, tr')"
  shows "\<exists>evs. tr' = tr @ evs \<and> list_all (\<lambda>ev. tx_name ev \<noteq> Some ''bond-provider'') evs"
proof -
  obtain r1 tr1 where f: "first_submission cfg e L tr = (r1, tr1)"
    by (cases "first_submission cfg e L tr")
  from first_submission_trace [OF f] obtain evs1 where
    e1: "tr1 = tr @ evs1" "list_all (\<lambda>ev. tx_name ev \<noteq> Some ''bond-provider'') evs1" by blast
  obtain r2 tr2 where s: "submit_mod cfg e L tr = (r2, tr2)" by (cases "submit_mod cfg e L tr")
  have "\<exists>evs. tr2 = tr @ evs \<and> list_all (\<lambda>ev. tx_name ev \<noteq> Some ''bond-provider'') evs"
  proof (cases r1)
    case (Inl x)
    with s f have "tr2 = tr1" by (simp add: submit_mod_def)
    with e1 show ?thesis by blast
  next
    case (Inr first)
    with s f have "retry_on_mismatch cfg e L first tr1 = (r2, tr2)" by (simp add: submit_mod_def)
    from retry_trace [OF this] obtain evs2 where
      "tr2 = tr1 @ evs2" "list_all (\<lambda>ev. tx_name ev \<noteq> Some ''bond-provider'') evs2" by blast
    with e1 show ?thesis by (intro exI [of _ "evs1 @ evs2"]) simp
  qed
  moreover have "tr' = tr2" using assms s
    by (auto simp: mod_phase_def split: sum.splits prod.splits if_splits)
  ultimately show ?thesis by simp
qed

lemma mod_phase_bond_tx:
  "mod_phase cfg e L B tr = (Inr (st, b), tr') \<Longrightarrow>
     field b ''bond_tx'' = Some (bond_tx_json (fst (snd B)) (snd (snd B)))"
  by (auto simp: mod_phase_def mod_failed_def submitted_def
           split: sum.splits prod.splits if_splits)

lemma lookup_trace:
  assumes "run_list e (lookup_cmd cfg L) tr = (Inr (code, out), tr1)"
  shows "\<exists>ls r. lookup_cmd cfg L = map PStr ls \<and> tr1 = tr @ [Exec ls] \<and> tx_name (Exec ls) = None
           \<and> resolved_service L = PStr r"
proof -
  from run_list_Inr [OF assms] obtain ls where
    ls: "lookup_cmd cfg L = map PStr ls" "tr1 = tr @ [Exec ls]" by blast
  from ls(1) have "tx_name (Exec ls) = None"
    by (auto simp: lookup_cmd_def Cons_eq_map_conv)
  with ls lookup_strs_resolved [OF ls(1)] show ?thesis by blast
qed

section \<open>The bond is skipped for a provider that exists\<close>

text \<open>
  C1. The handler has reached the bond lookup with the locals \<open>L\<close> and the lookup command has
  exited with \<open>code\<close>. When the code is 0, the rest of the request is the metadata update with
  the bond outcome \<^verbatim>\<open>None\<close>, exit code 0 and the text of the skip; no event of the request is a
  bond transaction, and every response has the \<^verbatim>\<open>bond_tx\<close> with exit code 0 and the output
  \<^verbatim>\<open>skipped: provider already exists\<close>. When the code is not 0, the next command of the request
  is the bond transaction.
\<close>

theorem existing_provider_skips_bond:
  assumes "prologue cfg e body = (Inr L, tr)"
      and "run_list e (lookup_cmd cfg L) tr = (Inr (code, out), tr1)"
  shows "(code = 0 \<longrightarrow>
            bond_and_mod_provider cfg e body =
              mod_phase cfg e L (PNone, 0, ''skipped: provider already exists'') tr1
          \<and> bond_txs (snd (bond_and_mod_provider cfg e body)) = []
          \<and> (\<forall>st b. fst (bond_and_mod_provider cfg e body) = Inr (st, b) \<longrightarrow>
                field b ''bond_tx'' =
                  Some (PDict [(''exit_code'', PInt 0),
                               (''output'', PStr ''skipped: provider already exists'')])))
       \<and> (code \<noteq> 0 \<longrightarrow>
            (\<exists>ss evs. bond_cmd cfg L = map PStr ss \<and> tx_name (Exec ss) = Some ''bond-provider''
               \<and> snd (bond_and_mod_provider cfg e body) = tr1 @ Exec ss # evs))"
proof (intro conjI impI)
  from lookup_trace [OF assms(2)] obtain ls r where
    ls: "tr1 = tr @ [Exec ls]" "tx_name (Exec ls) = None" and r: "resolved_service L = PStr r"
    by blast
  have quiet: "list_all (\<lambda>ev. tx_name ev = None) tr" using assms(1) by (rule prologue_trace)
  {
    assume zero: "code = 0"
    let ?B = "(PNone, 0::int, ''skipped: provider already exists'')"
    have "bond_phase cfg e L tr = (Inr ?B, tr1)"
      using assms(2) zero by (simp add: bond_phase_def check_existing_def)
    then show run: "bond_and_mod_provider cfg e body = mod_phase cfg e L ?B tr1"
      using assms(1) by (simp add: bond_and_mod_provider_def)
    obtain res tr' where m: "mod_phase cfg e L ?B tr1 = (res, tr')"
      by (cases "mod_phase cfg e L ?B tr1")
    from mod_phase_trace [OF m] obtain evs where
      evs: "tr' = tr1 @ evs" "list_all (\<lambda>ev. tx_name ev \<noteq> Some ''bond-provider'') evs" by blast
    show "bond_txs (snd (bond_and_mod_provider cfg e body)) = []"
      using run m evs ls quiet by (auto simp: bond_txs_def filter_empty_conv list_all_iff)
    show "\<forall>st b. fst (bond_and_mod_provider cfg e body) = Inr (st, b) \<longrightarrow>
            field b ''bond_tx'' =
              Some (PDict [(''exit_code'', PInt 0),
                           (''output'', PStr ''skipped: provider already exists'')])"
      using run m mod_phase_bond_tx [of cfg e L ?B tr1] by (auto simp: bond_tx_json_def)
  }
  {
    assume nz: "code \<noteq> 0"
    from bond_cmd_strs [OF r] obtain ss where ss: "bond_cmd cfg L = map PStr ss" by blast
    have tx: "tx_name (Exec ss) = Some ''bond-provider''" using ss by (rule bond_cmd_tx)
    obtain rb trb where rb: "run_list e (bond_cmd cfg L) tr1 = (rb, trb)"
      by (cases "run_list e (bond_cmd cfg L) tr1")
    have trb: "trb = tr1 @ [Exec ss]"
      using rb ss by (auto simp: run_list_def split: proc.splits)
    have bp: "bond_phase cfg e L tr =
                (case rb of
                   Inl x \<Rightarrow> (Inl (Inl x), trb)
                 | Inr (bond_code, bond_out) \<Rightarrow>
                     if bond_code \<noteq> 0 then (Inl (Inr (bond_failed cfg L bond_out)), trb)
                     else (Inr (PList (bond_cmd cfg L), bond_code, bond_out), trb @ [Sleep 2]))"
      using assms(2) nz rb by (simp add: bond_phase_def check_existing_def)
    have "\<exists>evs. snd (bond_and_mod_provider cfg e body) = tr1 @ Exec ss # evs"
    proof (cases rb)
      case (Inl x)
      with bp assms(1) trb show ?thesis by (simp add: bond_and_mod_provider_def)
    next
      case (Inr p)
      obtain bond_code bond_out where p: "p = (bond_code, bond_out)" by (cases p)
      show ?thesis
      proof (cases "bond_code = 0")
        case False
        with bp Inr p assms(1) trb show ?thesis by (simp add: bond_and_mod_provider_def)
      next
        case True
        let ?B = "(PList (bond_cmd cfg L), bond_code, bond_out)"
        obtain res tr' where m: "mod_phase cfg e L ?B (trb @ [Sleep 2]) = (res, tr')"
          by (cases "mod_phase cfg e L ?B (trb @ [Sleep 2])")
        from mod_phase_trace [OF m] obtain evs where "tr' = (trb @ [Sleep 2]) @ evs" by blast
        with bp Inr p True assms(1) trb m show ?thesis
          by (simp add: bond_and_mod_provider_def)
      qed
    qed
    with ss tx show "\<exists>ss evs. bond_cmd cfg L = map PStr ss \<and> tx_name (Exec ss) = Some ''bond-provider''
               \<and> snd (bond_and_mod_provider cfg e body) = tr1 @ Exec ss # evs" by blast
  }
qed

text \<open>
  The request for service \<^verbatim>\<open>7\<close> in the world where the provider exists: no bond transaction,
  one account query and the metadata update, and a response with status 200 that reports the
  skip and no bond command. In the world where it does not exist, the bond transaction follows
  the lookup.
\<close>

theorem existing_provider_skips_bond_witness:
  "prologue cfg0 env_exists body7 = (Inr locals7, trace7)
   \<and> run_list env_exists (lookup_cmd cfg0 locals7) trace7 = (Inr (0, ''{}''), trace7 @ [Exec lookup_ss])
   \<and> bond_txs (snd (bond_and_mod_provider cfg0 env_exists body7)) = []
   \<and> snd (bond_and_mod_provider cfg0 env_exists body7)
       = trace7 @ [Exec lookup_ss, Exec acct_ss, Exec (mod_ss [''--sequence'', ''5''])]
   \<and> status_of (fst (bond_and_mod_provider cfg0 env_exists body7)) = Some 200
   \<and> body_field (fst (bond_and_mod_provider cfg0 env_exists body7)) ''bond_tx''
       = Some (PDict [(''exit_code'', PInt 0),
                      (''output'', PStr ''skipped: provider already exists'')])
   \<and> body_field (fst (bond_and_mod_provider cfg0 env_exists body7)) ''bond_cmd'' = Some PNone
   \<and> prologue cfg0 env_refused body7 = (Inr locals7, trace7)
   \<and> run_list env_refused (lookup_cmd cfg0 locals7) trace7
       = (Inr (1, ''not found''), trace7 @ [Exec lookup_ss])
   \<and> (\<exists>evs. snd (bond_and_mod_provider cfg0 env_refused body7)
               = (trace7 @ [Exec lookup_ss]) @ Exec bond_ss # evs)"
proof -
  have a4: "status_of (fst (bond_and_mod_provider cfg0 env_exists body7)) = Some 200"
    by code_simp
  have a5: "body_field (fst (bond_and_mod_provider cfg0 env_exists body7)) ''bond_cmd'' = Some PNone"
    by code_simp
  have a1: "prologue cfg0 env_exists body7 = (Inr locals7, trace7)" by code_simp
  have a2: "run_list env_exists (lookup_cmd cfg0 locals7) trace7
              = (Inr (0, ''{}''), trace7 @ [Exec lookup_ss])" by code_simp
  have a3: "snd (bond_and_mod_provider cfg0 env_exists body7)
              = trace7 @ [Exec lookup_ss, Exec acct_ss, Exec (mod_ss [''--sequence'', ''5''])]"
    by code_simp
  have b1: "prologue cfg0 env_refused body7 = (Inr locals7, trace7)" by code_simp
  have b2: "run_list env_refused (lookup_cmd cfg0 locals7) trace7
              = (Inr (1, ''not found''), trace7 @ [Exec lookup_ss])" by code_simp
  have b3: "bond_cmd cfg0 locals7 = map PStr bond_ss" by code_simp
  note skip = existing_provider_skips_bond [OF a1 a2]
  from skip have a: "bond_txs (snd (bond_and_mod_provider cfg0 env_exists body7)) = []" by blast
  obtain st b where resp: "fst (bond_and_mod_provider cfg0 env_exists body7) = Inr (st, b)"
    using a4 by (cases "fst (bond_and_mod_provider cfg0 env_exists body7)") auto
  with skip have "field b ''bond_tx''
       = Some (PDict [(''exit_code'', PInt 0),
                      (''output'', PStr ''skipped: provider already exists'')])" by blast
  with resp have a6: "body_field (fst (bond_and_mod_provider cfg0 env_exists body7)) ''bond_tx''
       = Some (PDict [(''exit_code'', PInt 0),
                      (''output'', PStr ''skipped: provider already exists'')])" by simp
  from existing_provider_skips_bond [OF b1 b2] obtain ss evs where
    "bond_cmd cfg0 locals7 = map PStr ss"
    "snd (bond_and_mod_provider cfg0 env_refused body7) = (trace7 @ [Exec lookup_ss]) @ Exec ss # evs"
    by auto
  with b3 have "\<exists>evs. snd (bond_and_mod_provider cfg0 env_refused body7)
               = (trace7 @ [Exec lookup_ss]) @ Exec bond_ss # evs"
    by (auto simp: map_PStr_eq)
  with a1 a2 a3 a a4 a5 a6 b1 b2 show ?thesis by blast
qed

section \<open>A refused bond ends the request\<close>

text \<open>
  C7. The handler has reached the bond lookup, the bond is not skipped, and the bond command
  exits with a code that is not 0. Then the handler returns the response of a failed bond,
  with status 500, and the bond command is the last event of the request: it is the only
  bond transaction, and there is no metadata transaction.
\<close>

theorem failed_bond_is_terminal:
  assumes "prologue cfg e body = (Inr L, tr)"
      and "check_existing cfg e L tr = ((False, skipped), tr1)"
      and "run_list e (bond_cmd cfg L) tr1 = (Inr (code, out), tr2)"
      and "code \<noteq> 0"
  shows "bond_and_mod_provider cfg e body = (Inr (bond_failed cfg L out), tr2)
       \<and> fst (bond_failed cfg L out) = 500
       \<and> field (snd (bond_failed cfg L out)) ''error'' = Some (PStr ''failed to bond provider'')
       \<and> (\<exists>ss. bond_cmd cfg L = map PStr ss \<and> tr2 = tr1 @ [Exec ss] \<and> bond_txs tr2 = [Exec ss])
       \<and> mod_txs tr2 = []"
proof -
  have "bond_phase cfg e L tr = (Inl (Inr (bond_failed cfg L out)), tr2)"
    using assms(2-4) by (simp add: bond_phase_def)
  then have run: "bond_and_mod_provider cfg e body = (Inr (bond_failed cfg L out), tr2)"
    using assms(1) by (simp add: bond_and_mod_provider_def)
  from run_list_Inr [OF assms(3)] obtain ss where
    ss: "bond_cmd cfg L = map PStr ss" "tr2 = tr1 @ [Exec ss]" by blast
  have tx: "tx_name (Exec ss) = Some ''bond-provider''" using ss(1) by (rule bond_cmd_tx)
  have q0: "list_all (\<lambda>ev. tx_name ev = None) tr" using assms(1) by (rule prologue_trace)
  from check_existing_trace [OF assms(2)] obtain evs where
    evs: "tr1 = tr @ evs" "list_all (\<lambda>ev. tx_name ev = None) evs" by blast
  have q1: "list_all (\<lambda>ev. tx_name ev = None) tr1" using q0 evs by simp
  have b: "bond_txs tr2 = [Exec ss]"
    using q1 tx ss(2) by (simp add: bond_txs_def filter_empty_conv list_all_iff)
  have m: "mod_txs tr2 = []"
    using q1 tx ss(2) by (simp add: mod_txs_def filter_empty_conv list_all_iff)
  show ?thesis using run ss b m by (simp add: bond_failed_def)
qed

text \<open>The request for service \<^verbatim>\<open>7\<close> in the world that refuses the bond.\<close>

theorem failed_bond_is_terminal_witness:
  "prologue cfg0 env_refused body7 = (Inr locals7, trace7)
   \<and> check_existing cfg0 env_refused locals7 trace7
       = ((False, ''skipped: provider already bonded''), trace7 @ [Exec lookup_ss])
   \<and> run_list env_refused (bond_cmd cfg0 locals7) (trace7 @ [Exec lookup_ss])
       = (Inr (1, ''insufficient funds''), trace7 @ [Exec lookup_ss, Exec bond_ss])
   \<and> (1::int) \<noteq> 0
   \<and> bond_and_mod_provider cfg0 env_refused body7
       = (Inr (bond_failed cfg0 locals7 ''insufficient funds''),
          trace7 @ [Exec lookup_ss, Exec bond_ss])
   \<and> mod_txs (trace7 @ [Exec lookup_ss, Exec bond_ss]) = []"
proof -
  have h1: "prologue cfg0 env_refused body7 = (Inr locals7, trace7)" by code_simp
  have h2: "check_existing cfg0 env_refused locals7 trace7
              = ((False, ''skipped: provider already bonded''), trace7 @ [Exec lookup_ss])"
    by code_simp
  have h3: "run_list env_refused (bond_cmd cfg0 locals7) (trace7 @ [Exec lookup_ss])
              = (Inr (1, ''insufficient funds''), trace7 @ [Exec lookup_ss, Exec bond_ss])"
    by code_simp
  have h4: "(1::int) \<noteq> 0" by simp
  from failed_bond_is_terminal [OF h1 h2 h3 h4] h1 h2 h3 h4 show ?thesis by blast
qed

section \<open>The exit codes of a success\<close>

lemma prologue_early:
  "prologue cfg e body = (Inl (Inr (st, b)), tr) \<Longrightarrow>
     (st = 400 \<or> st = 500) \<and> field b ''status'' = None"
  by (auto simp: prologue_def Let_def split: pyval.splits if_splits prod.splits sum.splits)

lemma bond_phase_early:
  "bond_phase cfg e L tr = (Inl (Inr (st, b)), tr1) \<Longrightarrow> st = 500 \<and> field b ''status'' = None"
  by (auto simp: bond_phase_def bond_failed_def split: prod.splits sum.splits if_splits)

lemma bond_phase_code: "bond_phase cfg e L tr = (Inr (bc, code, out), tr1) \<Longrightarrow> code = 0"
  by (auto simp: bond_phase_def split: prod.splits sum.splits if_splits)

lemma mod_phase_response:
  "mod_phase cfg e L B tr = (Inr (st, b), tr') \<Longrightarrow>
     st = 500 \<and> field b ''status'' = None
     \<or> st = 200 \<and> field b ''status'' = Some (PStr ''bond_and_mod_submitted'')
        \<and> (\<exists>out. field b ''mod_tx'' = Some (PDict [(''exit_code'', PInt 0), (''output'', PStr out)]))
        \<and> field b ''bond_tx'' = Some (bond_tx_json (fst (snd B)) (snd (snd B)))"
  by (auto simp: mod_phase_def mod_failed_def submitted_def
           split: sum.splits prod.splits if_splits)

text \<open>
  C10. Every response of the handler has status 400 or 500 and no \<^verbatim>\<open>status\<close> field, or is the
  success: status 200, the \<^verbatim>\<open>status\<close> field \<^verbatim>\<open>bond_and_mod_submitted\<close>, and exit code 0 both in
  \<^verbatim>\<open>mod_tx\<close> and in \<^verbatim>\<open>bond_tx\<close>. And when the metadata update ends with an exit code that is
  not 0, the handler returns the response of a failed update, with status 500.
\<close>

theorem success_reports_zero_exit_codes:
  "(\<forall>st b. fst (bond_and_mod_provider cfg e body) = Inr (st, b) \<longrightarrow>
       (st = 400 \<or> st = 500) \<and> field b ''status'' = None
       \<or> st = 200 \<and> field b ''status'' = Some (PStr ''bond_and_mod_submitted'')
          \<and> (\<exists>out. field b ''mod_tx'' = Some (PDict [(''exit_code'', PInt 0), (''output'', PStr out)]))
          \<and> (\<exists>out. field b ''bond_tx'' = Some (PDict [(''exit_code'', PInt 0), (''output'', PStr out)])))
   \<and> (\<forall>L tr B tr1 cmd code out tr2.
         prologue cfg e body = (Inr L, tr) \<and> bond_phase cfg e L tr = (Inr B, tr1)
         \<and> submit_mod cfg e L tr1 = (Inr (cmd, code, out), tr2) \<and> code \<noteq> 0 \<longrightarrow>
         bond_and_mod_provider cfg e body = (Inr (mod_failed cfg L B cmd out), tr2)
         \<and> fst (mod_failed cfg L B cmd out) = 500)"
proof (intro conjI allI impI)
  fix st b
  assume resp: "fst (bond_and_mod_provider cfg e body) = Inr (st, b)"
  let ?goal = "(st = 400 \<or> st = 500) \<and> field b ''status'' = None
       \<or> st = 200 \<and> field b ''status'' = Some (PStr ''bond_and_mod_submitted'')
          \<and> (\<exists>out. field b ''mod_tx'' = Some (PDict [(''exit_code'', PInt 0), (''output'', PStr out)]))
          \<and> (\<exists>out. field b ''bond_tx'' = Some (PDict [(''exit_code'', PInt 0), (''output'', PStr out)]))"
  obtain p tr where p: "prologue cfg e body = (p, tr)" by (cases "prologue cfg e body")
  show ?goal
  proof (cases p)
    case (Inl early)
    with p resp have "prologue cfg e body = (Inl (Inr (st, b)), tr)"
      by (simp add: bond_and_mod_provider_def)
    from prologue_early [OF this] show ?thesis by simp
  next
    case (Inr L)
    obtain q tr1 where q: "bond_phase cfg e L tr = (q, tr1)" by (cases "bond_phase cfg e L tr")
    show ?thesis
    proof (cases q)
      case (Inl early)
      with p Inr q resp have "bond_phase cfg e L tr = (Inl (Inr (st, b)), tr1)"
        by (simp add: bond_and_mod_provider_def)
      from bond_phase_early [OF this] show ?thesis by simp
    next
      case B: (Inr B)
      obtain bc code out where B': "B = (bc, code, out)" by (cases B)
      have zero: "code = 0" using q B B' bond_phase_code by blast
      obtain tr2 where "mod_phase cfg e L B tr1 = (Inr (st, b), tr2)"
        using p Inr q B resp by (cases "mod_phase cfg e L B tr1") (simp add: bond_and_mod_provider_def)
      from mod_phase_response [OF this] show ?thesis using B' zero
        by (auto simp: bond_tx_json_def)
    qed
  qed
next
  fix L tr B tr1 cmd code out tr2
  assume h: "prologue cfg e body = (Inr L, tr) \<and> bond_phase cfg e L tr = (Inr B, tr1)
         \<and> submit_mod cfg e L tr1 = (Inr (cmd, code, out), tr2) \<and> code \<noteq> 0"
  then show "bond_and_mod_provider cfg e body = (Inr (mod_failed cfg L B cmd out), tr2)"
    by (simp add: bond_and_mod_provider_def mod_phase_def)
  show "fst (mod_failed cfg L B cmd out) = 500" by (simp add: mod_failed_def)
qed

text \<open>
  The request for service \<^verbatim>\<open>7\<close>: a success where the provider exists, and a failed update in
  the world where the second submission is refused as well.
\<close>

theorem success_reports_zero_exit_codes_witness:
  "status_of (fst (bond_and_mod_provider cfg0 env_exists body7)) = Some 200
   \<and> body_field (fst (bond_and_mod_provider cfg0 env_exists body7)) ''status''
       = Some (PStr ''bond_and_mod_submitted'')
   \<and> body_field (fst (bond_and_mod_provider cfg0 env_exists body7)) ''mod_tx''
       = Some (PDict [(''exit_code'', PInt 0), (''output'', PStr ''code: 0'')])
   \<and> body_field (fst (bond_and_mod_provider cfg0 env_exists body7)) ''bond_tx''
       = Some (PDict [(''exit_code'', PInt 0),
                      (''output'', PStr ''skipped: provider already exists'')])
   \<and> prologue cfg0 env_stuck body7 = (Inr locals7, trace7)
   \<and> bond_phase cfg0 env_stuck locals7 trace7 = (Inr skipped7, trace7 @ [Exec lookup_ss])
   \<and> submit_mod cfg0 env_stuck locals7 (trace7 @ [Exec lookup_ss])
       = (Inr (map PStr (mod_ss []), 1, ''account sequence mismatch''),
          trace7 @ [Exec lookup_ss, Exec acct_ss, Exec (mod_ss [''--sequence'', ''5'']), Sleep 1,
                    Exec acct_ss, Sleep 1, Exec acct_ss, Sleep 1, Exec (mod_ss [])])
   \<and> status_of (fst (bond_and_mod_provider cfg0 env_stuck body7)) = Some 500
   \<and> body_field (fst (bond_and_mod_provider cfg0 env_stuck body7)) ''error''
       = Some (PStr ''failed to mod provider'')
   \<and> body_field (fst (bond_and_mod_provider cfg0 env_stuck body7)) ''status'' = None"
proof -
  let ?ok = "fst (bond_and_mod_provider cfg0 env_exists body7)"
  let ?ko = "fst (bond_and_mod_provider cfg0 env_stuck body7)"
  have a1: "status_of ?ok = Some 200" by code_simp
  have a3: "body_field ?ok ''mod_tx''
              = Some (PDict [(''exit_code'', PInt 0), (''output'', PStr ''code: 0'')])"
    by code_simp
  have a4: "body_field ?ok ''bond_tx''
              = Some (PDict [(''exit_code'', PInt 0),
                             (''output'', PStr ''skipped: provider already exists'')])"
    by code_simp
  have h1: "prologue cfg0 env_stuck body7 = (Inr locals7, trace7)" by code_simp
  have h2: "bond_phase cfg0 env_stuck locals7 trace7 = (Inr skipped7, trace7 @ [Exec lookup_ss])"
    by code_simp
  have h3: "submit_mod cfg0 env_stuck locals7 (trace7 @ [Exec lookup_ss])
       = (Inr (map PStr (mod_ss []), 1, ''account sequence mismatch''),
          trace7 @ [Exec lookup_ss, Exec acct_ss, Exec (mod_ss [''--sequence'', ''5'']), Sleep 1,
                    Exec acct_ss, Sleep 1, Exec acct_ss, Sleep 1, Exec (mod_ss [])])"
    by code_simp
  have h4: "(1::int) \<noteq> 0" by simp
  note c10 = success_reports_zero_exit_codes [of cfg0 env_exists body7]
  note c10' = success_reports_zero_exit_codes [of cfg0 env_stuck body7]
  obtain st b where resp: "?ok = Inr (st, b)" using a1 by (cases ?ok) auto
  with a1 have st: "st = 200" by simp
  from c10 resp st have "field b ''status'' = Some (PStr ''bond_and_mod_submitted'')" by auto
  with resp have a2: "body_field ?ok ''status'' = Some (PStr ''bond_and_mod_submitted'')" by simp
  have c: "?ko = Inr (mod_failed cfg0 locals7 skipped7 (map PStr (mod_ss [])) ''account sequence mismatch'')"
    using c10' h1 h2 h3 h4 by (metis fst_conv)
  have c1: "status_of ?ko = Some 500" unfolding c by (simp add: mod_failed_def)
  have c2: "body_field ?ko ''error'' = Some (PStr ''failed to mod provider'')"
    unfolding c by (simp add: mod_failed_def)
  have c3: "body_field ?ko ''status'' = None" unfolding c by (simp add: mod_failed_def)
  from a1 a2 a3 a4 h1 h2 h3 c1 c2 c3 show ?thesis by blast
qed

section \<open>The retry on a sequence mismatch\<close>

lemma match_expected_digits: "match_expected s = Some n \<Longrightarrow> n \<noteq> [] \<and> list_all re_digit n"
  by (auto simp: match_expected_def Let_def list_all_iff split: if_splits dest: set_takeWhileD)

lemma search_expected_digits: "search_expected s = Some n \<Longrightarrow> n \<noteq> [] \<and> list_all re_digit n"
  by (induction s) (auto split: option.splits dest: match_expected_digits)

lemma with_sequence_splice:
  "\<exists>i\<le>length base. \<forall>seq. with_sequence base seq = take i base @ seq @ drop i base"
proof (cases "index_of (PStr ''--from'') base")
  case None
  then show ?thesis by (intro exI [of _ "length base"]) (simp add: with_sequence_def)
next
  case (Some i)
  with index_of_less [OF Some] show ?thesis
    by (intro exI [of _ i]) (simp add: with_sequence_def)
qed

lemma with_sequence_strs:
  assumes "with_sequence base seq = map PStr ss"
  shows "\<exists>ss'. with_sequence base (map PStr xs) = map PStr ss'"
proof -
  from with_sequence_splice [of base] obtain i where
    i: "\<And>s. with_sequence base s = take i base @ s @ drop i base" by blast
  have "list_all (\<lambda>v. \<exists>s. v = PStr s) (take i base @ seq @ drop i base)"
    using assms ex_map_PStr [of "with_sequence base seq"] by (auto simp: i)
  then have "list_all (\<lambda>v. \<exists>s. v = PStr s) (take i base @ map PStr xs @ drop i base)"
    by (auto simp: list_all_iff)
  then show ?thesis unfolding i ex_map_PStr .
qed

lemma first_submission_cmd:
  assumes "first_submission cfg e L tr = (Inr (cmd1, code1, out1), tr2)"
  shows "\<exists>seq ss. cmd1 = with_sequence (mod_cmd_base cfg L) seq \<and> cmd1 = map PStr ss"
proof -
  obtain seq tr1 where f: "fetch_sequence cfg e L 3 tr = (seq, tr1)"
    by (cases "fetch_sequence cfg e L 3 tr")
  with assms have "run_mod_with_sequence e (mod_cmd_base cfg L) seq tr1 = (Inr (cmd1, code1, out1), tr2)"
    by (simp add: first_submission_def)
  from run_mod_cases [OF this] show ?thesis by auto
qed

lemma top_after_first:
  assumes "prologue cfg e body = (Inr L, tr0)"
      and "bond_phase cfg e L tr0 = (Inr B, tr1)"
      and "first_submission cfg e L tr1 = (Inr first, tr2)"
      and "retry_on_mismatch cfg e L first tr2 = (r, tr')"
  shows "bond_and_mod_provider cfg e body =
           (case r of
              Inl x \<Rightarrow> (Inl x, tr')
            | Inr (mod_cmd, mod_code, mod_out) \<Rightarrow>
                if mod_code \<noteq> 0 then (Inr (mod_failed cfg L B mod_cmd mod_out), tr')
                else (Inr (submitted cfg L B mod_cmd mod_code mod_out), tr'))"
  using assms
  by (simp add: bond_and_mod_provider_def mod_phase_def submit_mod_def split: sum.splits)

text \<open>
  C2. The handler has made its first submission of the metadata update, the output of that
  submission has the mismatch text, and the search for \<^verbatim>\<open>expected\<close>, white space and decimal
  digits in it gives the digits \<open>n\<close>. Then all that follows the first submission in the request
  is one second of sleep and one more submission, of the command with \<^verbatim>\<open>--sequence n\<close> put
  in: the account is not queried again.
\<close>

theorem mismatch_retry_uses_expected_sequence:
  assumes "prologue cfg e body = (Inr L, tr0)"
      and "bond_phase cfg e L tr0 = (Inr B, tr1)"
      and "first_submission cfg e L tr1 = (Inr (cmd1, code1, out1), tr2)"
      and "contains out1 ''account sequence mismatch''"
      and "search_expected out1 = Some n"
  shows "n \<noteq> [] \<and> list_all re_digit n
       \<and> (\<exists>ss. with_sequence (mod_cmd_base cfg L) [PStr ''--sequence'', PStr n] = map PStr ss
              \<and> snd (bond_and_mod_provider cfg e body) = tr2 @ [Sleep 1, Exec ss])"
proof -
  let ?base = "mod_cmd_base cfg L"
  from first_submission_cmd [OF assms(3)] obtain seq ss1 where
    "with_sequence ?base seq = map PStr ss1" by auto
  from with_sequence_strs [OF this, of "[''--sequence'', n]"] obtain ss where
    ss: "with_sequence ?base [PStr ''--sequence'', PStr n] = map PStr ss" by auto
  obtain r tr' where
    retry: "retry_on_mismatch cfg e L (cmd1, code1, out1) tr2 = (r, tr')"
    by (cases "retry_on_mismatch cfg e L (cmd1, code1, out1) tr2")
  then have "run_mod_with_sequence e ?base [PStr ''--sequence'', PStr n] (tr2 @ [Sleep 1]) = (r, tr')"
    using assms(4,5) by (simp add: retry_on_mismatch_def)
  then have tr': "tr' = tr2 @ [Sleep 1, Exec ss]"
    using ss by (auto simp: run_mod_with_sequence_def run_list_def split: proc.splits)
  have "snd (bond_and_mod_provider cfg e body) = tr'"
    unfolding top_after_first [OF assms(1-3) retry]
    by (simp split: sum.splits prod.splits)
  with tr' ss search_expected_digits [OF assms(5)] show ?thesis by blast
qed

text \<open>
  The request for service \<^verbatim>\<open>7\<close> in the world that answers the first submission, made with
  sequence 5, by \<^verbatim>\<open>account sequence mismatch, expected 6, got 5\<close>.
\<close>

theorem mismatch_retry_uses_expected_sequence_witness:
  "prologue cfg0 env_mismatch body7 = (Inr locals7, trace7)
   \<and> bond_phase cfg0 env_mismatch locals7 trace7 = (Inr skipped7, trace7 @ [Exec lookup_ss])
   \<and> first_submission cfg0 env_mismatch locals7 (trace7 @ [Exec lookup_ss])
       = (Inr (map PStr (mod_ss [''--sequence'', ''5'']), 1,
               ''account sequence mismatch, expected 6, got 5''),
          trace7 @ [Exec lookup_ss, Exec acct_ss, Exec (mod_ss [''--sequence'', ''5''])])
   \<and> contains ''account sequence mismatch, expected 6, got 5'' ''account sequence mismatch''
   \<and> search_expected ''account sequence mismatch, expected 6, got 5'' = Some ''6''
   \<and> snd (bond_and_mod_provider cfg0 env_mismatch body7)
       = (trace7 @ [Exec lookup_ss, Exec acct_ss, Exec (mod_ss [''--sequence'', ''5''])])
         @ [Sleep 1, Exec (mod_ss [''--sequence'', ''6''])]"
proof -
  have h1: "prologue cfg0 env_mismatch body7 = (Inr locals7, trace7)" by code_simp
  have h2: "bond_phase cfg0 env_mismatch locals7 trace7 = (Inr skipped7, trace7 @ [Exec lookup_ss])"
    by code_simp
  have h3: "first_submission cfg0 env_mismatch locals7 (trace7 @ [Exec lookup_ss])
       = (Inr (map PStr (mod_ss [''--sequence'', ''5'']), 1,
               ''account sequence mismatch, expected 6, got 5''),
          trace7 @ [Exec lookup_ss, Exec acct_ss, Exec (mod_ss [''--sequence'', ''5''])])"
    by code_simp
  have h4: "contains ''account sequence mismatch, expected 6, got 5'' ''account sequence mismatch''"
    by code_simp
  have h5: "search_expected ''account sequence mismatch, expected 6, got 5'' = Some ''6''"
    by code_simp
  have cmd: "with_sequence (mod_cmd_base cfg0 locals7) [PStr ''--sequence'', PStr ''6'']
               = map PStr (mod_ss [''--sequence'', ''6''])" by code_simp
  from mismatch_retry_uses_expected_sequence [OF h1 h2 h3 h4 h5] obtain ss where
    "with_sequence (mod_cmd_base cfg0 locals7) [PStr ''--sequence'', PStr ''6''] = map PStr ss"
    "snd (bond_and_mod_provider cfg0 env_mismatch body7)
       = (trace7 @ [Exec lookup_ss, Exec acct_ss, Exec (mod_ss [''--sequence'', ''5''])])
         @ [Sleep 1, Exec ss]" by blast
  with cmd have "snd (bond_and_mod_provider cfg0 env_mismatch body7)
       = (trace7 @ [Exec lookup_ss, Exec acct_ss, Exec (mod_ss [''--sequence'', ''5''])])
         @ [Sleep 1, Exec (mod_ss [''--sequence'', ''6''])]"
    by (simp add: map_PStr_eq)
  with h1 h2 h3 h4 h5 show ?thesis by blast
qed

lemma mod_phase_snd: "snd (mod_phase cfg e L B tr) = snd (submit_mod cfg e L tr)"
  by (simp add: mod_phase_def split: sum.splits prod.splits)

lemma submit_mod_extends:
  assumes "first_submission cfg e L tr = (r1, tr2)"
  shows "\<exists>evs. snd (submit_mod cfg e L tr) = tr2 @ evs"
proof (cases r1)
  case (Inl x)
  with assms show ?thesis by (simp add: submit_mod_def)
next
  case (Inr first)
  obtain r tr' where r: "retry_on_mismatch cfg e L first tr2 = (r, tr')"
    by (cases "retry_on_mismatch cfg e L first tr2")
  from retry_trace [OF r] obtain evs where "tr' = tr2 @ evs" by blast
  with assms Inr r show ?thesis by (simp add: submit_mod_def)
qed

lemma top_snd:
  assumes "prologue cfg e body = (Inr L, tr0)"
      and "bond_phase cfg e L tr0 = (Inr B, tr1)"
  shows "snd (bond_and_mod_provider cfg e body) = snd (submit_mod cfg e L tr1)"
  using assms by (simp add: bond_and_mod_provider_def mod_phase_snd)

text \<open>
  C3. The handler has made its first submission of the metadata update and the output has the
  mismatch text. Then what follows in the request is one second of sleep, the polling of the
  recovery, and exactly one more submission, with which the request ends. The polling is empty
  when the output names the expected sequence; otherwise it is the loop of at most two account
  queries, and the submission carries the sequence arguments the loop gave, none when it gave
  none. When that second submission exits with a code that is not 0, the handler returns the
  response of a failed update, with status 500.
\<close>

theorem mismatch_recovery_happens_once:
  assumes "prologue cfg e body = (Inr L, tr0)"
      and "bond_phase cfg e L tr0 = (Inr B, tr1)"
      and "first_submission cfg e L tr1 = (Inr (cmd1, code1, out1), tr2)"
      and "contains out1 ''account sequence mismatch''"
  shows "\<exists>retry qs ss.
           (case search_expected out1 of
              Some n \<Rightarrow> retry = [PStr ''--sequence'', PStr n] \<and> qs = []
            | None \<Rightarrow> fetch_sequence cfg e L 2 (tr2 @ [Sleep 1]) = (retry, tr2 @ [Sleep 1] @ qs))
         \<and> polling cfg L qs \<and> length (execs qs) \<le> 2
         \<and> (retry = [] \<or> (\<exists>s. retry = [PStr ''--sequence'', PStr s]))
         \<and> with_sequence (mod_cmd_base cfg L) retry = map PStr ss
         \<and> snd (bond_and_mod_provider cfg e body) = tr2 @ [Sleep 1] @ qs @ [Exec ss]
         \<and> (\<forall>c out2. world e (tr2 @ [Sleep 1] @ qs) ss = Exited c out2 \<and> c \<noteq> 0 \<longrightarrow>
              fst (bond_and_mod_provider cfg e body) = Inr (mod_failed cfg L B (map PStr ss) out2)
              \<and> fst (mod_failed cfg L B (map PStr ss) out2) = 500)"
proof -
  let ?base = "mod_cmd_base cfg L"
  define rec where "rec = (case search_expected out1 of
                     Some g \<Rightarrow> ([PStr ''--sequence'', PStr g], tr2 @ [Sleep 1])
                   | None \<Rightarrow> fetch_sequence cfg e L 2 (tr2 @ [Sleep 1]))"
  obtain retry tr3 where rec: "rec = (retry, tr3)" by (cases rec)
  have "\<exists>qs. tr3 = tr2 @ [Sleep 1] @ qs \<and> polling cfg L qs \<and> length (execs qs) \<le> 2 \<and>
             (retry = [] \<or> (\<exists>s. retry = [PStr ''--sequence'', PStr s])) \<and>
             (case search_expected out1 of
                Some n \<Rightarrow> retry = [PStr ''--sequence'', PStr n] \<and> qs = []
              | None \<Rightarrow> fetch_sequence cfg e L 2 (tr2 @ [Sleep 1]) = (retry, tr2 @ [Sleep 1] @ qs))"
  proof (cases "search_expected out1")
    case None
    with rec have f: "fetch_sequence cfg e L 2 (tr2 @ [Sleep 1]) = (retry, tr3)"
      by (simp add: rec_def)
    from fetch_sequence_trace [OF f] obtain qs where
      "tr3 = (tr2 @ [Sleep 1]) @ qs" "polling cfg L qs" "length (execs qs) \<le> 2"
      "retry = [] \<or> (\<exists>s. retry = [PStr ''--sequence'', PStr s])" by blast
    with None f show ?thesis by (intro exI [of _ qs]) simp
  next
    case (Some n)
    with rec show ?thesis
      by (intro exI [of _ "[]"]) (auto simp: rec_def polling_def execs_def)
  qed
  then obtain qs where
    qs: "tr3 = tr2 @ [Sleep 1] @ qs" "polling cfg L qs" "length (execs qs) \<le> 2"
    and shape: "retry = [] \<or> (\<exists>s. retry = [PStr ''--sequence'', PStr s])"
    and how: "case search_expected out1 of
                Some n \<Rightarrow> retry = [PStr ''--sequence'', PStr n] \<and> qs = []
              | None \<Rightarrow> fetch_sequence cfg e L 2 (tr2 @ [Sleep 1]) = (retry, tr2 @ [Sleep 1] @ qs)"
    by blast
  from shape obtain xs where xs: "retry = map PStr xs"
  proof
    assume "retry = []"
    then have "retry = map PStr []" by simp
    then show ?thesis by (rule that)
  next
    assume "\<exists>s. retry = [PStr ''--sequence'', PStr s]"
    then obtain s where "retry = map PStr [''--sequence'', s]" by auto
    then show ?thesis by (rule that)
  qed
  from first_submission_cmd [OF assms(3)] obtain seq ss1 where
    "with_sequence ?base seq = map PStr ss1" by auto
  from with_sequence_strs [OF this, of xs] xs obtain ss where
    ss: "with_sequence ?base retry = map PStr ss" by auto
  obtain r tr' where
    retry: "retry_on_mismatch cfg e L (cmd1, code1, out1) tr2 = (r, tr')"
    by (cases "retry_on_mismatch cfg e L (cmd1, code1, out1) tr2")
  then have "run_mod_with_sequence e ?base retry tr3 = (r, tr')"
    using assms(4) rec by (simp add: retry_on_mismatch_def rec_def)
  then have run: "(case world e tr3 ss of
                     Exited c out2 \<Rightarrow> (Inr (map PStr ss, c, out2), tr3 @ [Exec ss])
                   | Raised \<Rightarrow> (Inl RunError, tr3 @ [Exec ss])) = (r, tr')"
    using ss by (simp add: run_mod_with_sequence_def run_list_def split: proc.splits)
  then have tr': "tr' = tr3 @ [Exec ss]" by (auto split: proc.splits)
  note top = top_after_first [OF assms(1-3) retry]
  have trace: "snd (bond_and_mod_provider cfg e body) = tr2 @ [Sleep 1] @ qs @ [Exec ss]"
    unfolding top using tr' qs(1) by (simp split: sum.splits prod.splits)
  have fail: "\<forall>c out2. world e (tr2 @ [Sleep 1] @ qs) ss = Exited c out2 \<and> c \<noteq> 0 \<longrightarrow>
              fst (bond_and_mod_provider cfg e body) = Inr (mod_failed cfg L B (map PStr ss) out2)
              \<and> fst (mod_failed cfg L B (map PStr ss) out2) = 500"
  proof (intro allI impI)
    fix c out2
    assume w: "world e (tr2 @ [Sleep 1] @ qs) ss = Exited c out2 \<and> c \<noteq> 0"
    with run qs(1) have "r = Inr (map PStr ss, c, out2)" by auto
    with w show "fst (bond_and_mod_provider cfg e body) = Inr (mod_failed cfg L B (map PStr ss) out2)
              \<and> fst (mod_failed cfg L B (map PStr ss) out2) = 500"
      unfolding top by (simp add: mod_failed_def)
  qed
  from how qs(2,3) shape ss trace fail show ?thesis by blast
qed

text \<open>
  The request for service \<^verbatim>\<open>7\<close> in the world where the mismatch names no sequence, the two
  account queries of the recovery give none, and the second submission meets the mismatch too.
\<close>

theorem mismatch_recovery_happens_once_witness:
  "prologue cfg0 env_stuck body7 = (Inr locals7, trace7)
   \<and> bond_phase cfg0 env_stuck locals7 trace7 = (Inr skipped7, trace7 @ [Exec lookup_ss])
   \<and> first_submission cfg0 env_stuck locals7 (trace7 @ [Exec lookup_ss])
       = (Inr (map PStr (mod_ss [''--sequence'', ''5'']), 1, ''account sequence mismatch''),
          trace7 @ [Exec lookup_ss, Exec acct_ss, Exec (mod_ss [''--sequence'', ''5''])])
   \<and> contains ''account sequence mismatch'' ''account sequence mismatch''
   \<and> snd (bond_and_mod_provider cfg0 env_stuck body7)
       = (trace7 @ [Exec lookup_ss, Exec acct_ss, Exec (mod_ss [''--sequence'', ''5''])])
         @ [Sleep 1] @ [Exec acct_ss, Sleep 1, Exec acct_ss, Sleep 1] @ [Exec (mod_ss [])]
   \<and> fst (bond_and_mod_provider cfg0 env_stuck body7)
       = Inr (mod_failed cfg0 locals7 skipped7 (map PStr (mod_ss [])) ''account sequence mismatch'')"
proof -
  let ?tr2 = "trace7 @ [Exec lookup_ss, Exec acct_ss, Exec (mod_ss [''--sequence'', ''5''])]"
  let ?qs = "[Exec acct_ss, Sleep 1, Exec acct_ss, Sleep 1]"
  have h1: "prologue cfg0 env_stuck body7 = (Inr locals7, trace7)" by code_simp
  have h2: "bond_phase cfg0 env_stuck locals7 trace7 = (Inr skipped7, trace7 @ [Exec lookup_ss])"
    by code_simp
  have h3: "first_submission cfg0 env_stuck locals7 (trace7 @ [Exec lookup_ss])
       = (Inr (map PStr (mod_ss [''--sequence'', ''5'']), 1, ''account sequence mismatch''), ?tr2)"
    by code_simp
  have h4: "contains ''account sequence mismatch'' ''account sequence mismatch''" by code_simp
  have none: "search_expected ''account sequence mismatch'' = None" by code_simp
  have poll: "fetch_sequence cfg0 env_stuck locals7 2 (?tr2 @ [Sleep 1]) = ([], ?tr2 @ [Sleep 1] @ ?qs)"
    by code_simp
  have w: "world env_stuck (?tr2 @ [Sleep 1] @ ?qs) (mod_ss []) = Exited 1 ''account sequence mismatch''"
    by code_simp
  have base: "mod_cmd_base cfg0 locals7 = map PStr (mod_ss [])" by code_simp
  note once = mismatch_recovery_happens_once [OF h1 h2 h3 h4, unfolded none option.case]
  from once obtain retry qs ss where
    r: "fetch_sequence cfg0 env_stuck locals7 2 (?tr2 @ [Sleep 1]) = (retry, ?tr2 @ [Sleep 1] @ qs)"
    and ss: "with_sequence (mod_cmd_base cfg0 locals7) retry = map PStr ss"
    and tr: "snd (bond_and_mod_provider cfg0 env_stuck body7) = ?tr2 @ [Sleep 1] @ qs @ [Exec ss]"
    and fail: "\<forall>c out2. world env_stuck (?tr2 @ [Sleep 1] @ qs) ss = Exited c out2 \<and> c \<noteq> 0 \<longrightarrow>
              fst (bond_and_mod_provider cfg0 env_stuck body7)
                = Inr (mod_failed cfg0 locals7 skipped7 (map PStr ss) out2)"
    by blast
  from r poll have retry: "retry = []" and qs: "qs = ?qs" by simp_all
  from ss retry base have ss': "ss = mod_ss []" by (simp add: map_PStr_eq)
  have t: "snd (bond_and_mod_provider cfg0 env_stuck body7)
             = ?tr2 @ [Sleep 1] @ ?qs @ [Exec (mod_ss [])]"
    using tr qs ss' by simp
  have f: "fst (bond_and_mod_provider cfg0 env_stuck body7)
       = Inr (mod_failed cfg0 locals7 skipped7 (map PStr (mod_ss [])) ''account sequence mismatch'')"
    using fail w unfolding qs ss' by auto
  from h1 h2 h3 h4 t f show ?thesis by blast
qed

section \<open>The account sequence before the first submission\<close>

text \<open>
  C6. The handler has passed the bond, and the arguments of the metadata command are strings.
  Then the loop that asks for the account sequence makes at most three queries, and whatever
  it gives, the next command of the request is the metadata update with the sequence arguments
  of the loop put in. When the loop gives none, it has made three queries and the command is
  the base command with nothing put in. What the handler returns depends on that submission
  alone: when it exits with 0 and its output has no mismatch text, the request ends there with
  status 200 and the success response, whatever the loop gave; when it exits with another code
  and no mismatch text, the response is the failed update with the output of the submission.
\<close>

theorem sequence_fetch_is_best_effort:
  assumes "prologue cfg e body = (Inr L, tr0)"
      and "bond_phase cfg e L tr0 = (Inr B, tr1)"
      and "mod_cmd_base cfg L = map PStr bs"
  shows "\<exists>seq qs ss evs.
           fetch_sequence cfg e L 3 tr1 = (seq, tr1 @ qs)
         \<and> polling cfg L qs \<and> length (execs qs) \<le> 3
         \<and> with_sequence (mod_cmd_base cfg L) seq = map PStr ss
         \<and> snd (bond_and_mod_provider cfg e body) = tr1 @ qs @ Exec ss # evs
         \<and> (seq = [] \<longrightarrow> length (execs qs) = 3 \<and> ss = bs)
         \<and> (\<forall>out. world e (tr1 @ qs) ss = Exited 0 out
                  \<and> \<not> contains out ''account sequence mismatch'' \<longrightarrow>
                snd (bond_and_mod_provider cfg e body) = tr1 @ qs @ [Exec ss]
              \<and> status_of (fst (bond_and_mod_provider cfg e body)) = Some 200
              \<and> body_field (fst (bond_and_mod_provider cfg e body)) ''status''
                  = Some (PStr ''bond_and_mod_submitted'')
              \<and> body_field (fst (bond_and_mod_provider cfg e body)) ''mod_cmd''
                  = Some (PList (map PStr ss))
              \<and> body_field (fst (bond_and_mod_provider cfg e body)) ''mod_tx''
                  = Some (PDict [(''exit_code'', PInt 0), (''output'', PStr out)]))
         \<and> (\<forall>c out. world e (tr1 @ qs) ss = Exited c out \<and> c \<noteq> 0
                  \<and> \<not> contains out ''account sequence mismatch'' \<longrightarrow>
                snd (bond_and_mod_provider cfg e body) = tr1 @ qs @ [Exec ss]
              \<and> status_of (fst (bond_and_mod_provider cfg e body)) = Some 500
              \<and> body_field (fst (bond_and_mod_provider cfg e body)) ''error''
                  = Some (PStr ''failed to mod provider'')
              \<and> body_field (fst (bond_and_mod_provider cfg e body)) ''detail'' = Some (PStr out))"
proof -
  let ?base = "mod_cmd_base cfg L"
  let ?run = "bond_and_mod_provider cfg e body"
  obtain seq tr2 where f: "fetch_sequence cfg e L 3 tr1 = (seq, tr2)"
    by (cases "fetch_sequence cfg e L 3 tr1")
  from fetch_sequence_trace [OF f] obtain qs where
    qs: "tr2 = tr1 @ qs" "polling cfg L qs" "length (execs qs) \<le> 3"
    and shape: "seq = [] \<and> length (execs qs) = 3 \<or> (\<exists>s. seq = [PStr ''--sequence'', PStr s])"
    by blast
  from shape obtain xs where xs: "seq = map PStr xs"
  proof
    assume "seq = [] \<and> length (execs qs) = 3"
    then have "seq = map PStr []" by simp
    then show ?thesis by (rule that)
  next
    assume "\<exists>s. seq = [PStr ''--sequence'', PStr s]"
    then obtain s where "seq = map PStr [''--sequence'', s]" by auto
    then show ?thesis by (rule that)
  qed
  have "with_sequence ?base [] = map PStr bs" using assms(3) by simp
  from with_sequence_strs [OF this, of xs] xs obtain ss where
    ss: "with_sequence ?base seq = map PStr ss" by auto
  obtain r1 tr3 where first: "first_submission cfg e L tr1 = (r1, tr3)"
    by (cases "first_submission cfg e L tr1")
  then have "run_mod_with_sequence e ?base seq tr2 = (r1, tr3)"
    using f by (simp add: first_submission_def)
  then have tr3: "tr3 = tr2 @ [Exec ss]"
    using ss by (auto simp: run_mod_with_sequence_def run_list_def split: proc.splits)
  from submit_mod_extends [OF first] obtain evs where
    "snd (submit_mod cfg e L tr1) = tr3 @ evs" by blast
  then have trace: "snd ?run = tr1 @ qs @ Exec ss # evs"
    using top_snd [OF assms(1,2)] tr3 qs(1) by simp
  have none: "seq = [] \<longrightarrow> length (execs qs) = 3 \<and> ss = bs"
    using shape ss assms(3) by (auto simp: map_PStr_eq)
  have answer: "?run = (if c \<noteq> 0 then (Inr (mod_failed cfg L B (map PStr ss) out), tr1 @ qs @ [Exec ss])
                        else (Inr (submitted cfg L B (map PStr ss) c out), tr1 @ qs @ [Exec ss]))"
    if w: "world e (tr1 @ qs) ss = Exited c out" and quiet: "\<not> contains out ''account sequence mismatch''"
    for c out
  proof -
    have fs: "first_submission cfg e L tr1 = (Inr (map PStr ss, c, out), tr2 @ [Exec ss])"
      using f ss w qs(1)
      by (simp add: first_submission_def run_mod_with_sequence_def run_list_def)
    have rt: "retry_on_mismatch cfg e L (map PStr ss, c, out) (tr2 @ [Exec ss])
                = (Inr (map PStr ss, c, out), tr2 @ [Exec ss])"
      using quiet by (simp add: retry_on_mismatch_def)
    show ?thesis using top_after_first [OF assms(1,2) fs rt] qs(1) by simp
  qed
  have good: "\<forall>out. world e (tr1 @ qs) ss = Exited 0 out
                  \<and> \<not> contains out ''account sequence mismatch'' \<longrightarrow>
                snd ?run = tr1 @ qs @ [Exec ss]
              \<and> status_of (fst ?run) = Some 200
              \<and> body_field (fst ?run) ''status'' = Some (PStr ''bond_and_mod_submitted'')
              \<and> body_field (fst ?run) ''mod_cmd'' = Some (PList (map PStr ss))
              \<and> body_field (fst ?run) ''mod_tx''
                  = Some (PDict [(''exit_code'', PInt 0), (''output'', PStr out)])"
  proof (intro allI impI)
    fix out
    assume "world e (tr1 @ qs) ss = Exited 0 out \<and> \<not> contains out ''account sequence mismatch''"
    then have "?run = (Inr (submitted cfg L B (map PStr ss) 0 out), tr1 @ qs @ [Exec ss])"
      using answer [of 0 out] by simp
    then show "snd ?run = tr1 @ qs @ [Exec ss]
              \<and> status_of (fst ?run) = Some 200
              \<and> body_field (fst ?run) ''status'' = Some (PStr ''bond_and_mod_submitted'')
              \<and> body_field (fst ?run) ''mod_cmd'' = Some (PList (map PStr ss))
              \<and> body_field (fst ?run) ''mod_tx''
                  = Some (PDict [(''exit_code'', PInt 0), (''output'', PStr out)])"
      by (simp add: submitted_def)
  qed
  have bad: "\<forall>c out. world e (tr1 @ qs) ss = Exited c out \<and> c \<noteq> 0
                  \<and> \<not> contains out ''account sequence mismatch'' \<longrightarrow>
                snd ?run = tr1 @ qs @ [Exec ss]
              \<and> status_of (fst ?run) = Some 500
              \<and> body_field (fst ?run) ''error'' = Some (PStr ''failed to mod provider'')
              \<and> body_field (fst ?run) ''detail'' = Some (PStr out)"
  proof (intro allI impI)
    fix c out
    assume "world e (tr1 @ qs) ss = Exited c out \<and> c \<noteq> 0
              \<and> \<not> contains out ''account sequence mismatch''"
    then have "?run = (Inr (mod_failed cfg L B (map PStr ss) out), tr1 @ qs @ [Exec ss])"
      using answer [of c out] by simp
    then show "snd ?run = tr1 @ qs @ [Exec ss]
              \<and> status_of (fst ?run) = Some 500
              \<and> body_field (fst ?run) ''error'' = Some (PStr ''failed to mod provider'')
              \<and> body_field (fst ?run) ''detail'' = Some (PStr out)"
      by (simp add: mod_failed_def)
  qed
  from f qs ss trace none good bad show ?thesis by blast
qed

text \<open>
  The request for service \<^verbatim>\<open>7\<close> in the world where the three account queries fail, each in
  its own way: a non-zero exit, output that is not JSON, and a command that cannot be run. The
  update is submitted without a sequence, exits with 0, and the response is the success.
\<close>

theorem sequence_fetch_is_best_effort_witness:
  "prologue cfg0 env_noseq body7 = (Inr locals7, trace7)
   \<and> bond_phase cfg0 env_noseq locals7 trace7 = (Inr skipped7, trace7 @ [Exec lookup_ss])
   \<and> mod_cmd_base cfg0 locals7 = map PStr (mod_ss [])
   \<and> fetch_sequence cfg0 env_noseq locals7 3 (trace7 @ [Exec lookup_ss])
       = ([], (trace7 @ [Exec lookup_ss])
              @ [Exec acct_ss, Sleep 1, Exec acct_ss, Sleep 1, Exec acct_ss, Sleep 1])
   \<and> world env_noseq
        ((trace7 @ [Exec lookup_ss])
         @ [Exec acct_ss, Sleep 1, Exec acct_ss, Sleep 1, Exec acct_ss, Sleep 1]) (mod_ss [])
       = Exited 0 ''code: 0''
   \<and> \<not> contains ''code: 0'' ''account sequence mismatch''
   \<and> snd (bond_and_mod_provider cfg0 env_noseq body7)
       = (trace7 @ [Exec lookup_ss])
         @ [Exec acct_ss, Sleep 1, Exec acct_ss, Sleep 1, Exec acct_ss, Sleep 1]
         @ [Exec (mod_ss [])]
   \<and> status_of (fst (bond_and_mod_provider cfg0 env_noseq body7)) = Some 200
   \<and> body_field (fst (bond_and_mod_provider cfg0 env_noseq body7)) ''status''
       = Some (PStr ''bond_and_mod_submitted'')
   \<and> body_field (fst (bond_and_mod_provider cfg0 env_noseq body7)) ''mod_cmd''
       = Some (PList (map PStr (mod_ss [])))
   \<and> body_field (fst (bond_and_mod_provider cfg0 env_noseq body7)) ''mod_tx''
       = Some (PDict [(''exit_code'', PInt 0), (''output'', PStr ''code: 0'')])"
proof -
  let ?tr1 = "trace7 @ [Exec lookup_ss]"
  let ?qs = "[Exec acct_ss, Sleep 1, Exec acct_ss, Sleep 1, Exec acct_ss, Sleep 1]"
  let ?run = "bond_and_mod_provider cfg0 env_noseq body7"
  have h1: "prologue cfg0 env_noseq body7 = (Inr locals7, trace7)" by code_simp
  have h2: "bond_phase cfg0 env_noseq locals7 trace7 = (Inr skipped7, ?tr1)" by code_simp
  have h3: "mod_cmd_base cfg0 locals7 = map PStr (mod_ss [])" by code_simp
  have poll: "fetch_sequence cfg0 env_noseq locals7 3 ?tr1 = ([], ?tr1 @ ?qs)" by code_simp
  have w: "world env_noseq (?tr1 @ ?qs) (mod_ss []) = Exited 0 ''code: 0''" by code_simp
  have quiet: "\<not> contains ''code: 0'' ''account sequence mismatch''" by code_simp
  from sequence_fetch_is_best_effort [OF h1 h2 h3] obtain seq qs ss where
    f: "fetch_sequence cfg0 env_noseq locals7 3 ?tr1 = (seq, ?tr1 @ qs)"
    and none: "seq = [] \<longrightarrow> length (execs qs) = 3 \<and> ss = mod_ss []"
    and good: "\<forall>out. world env_noseq (?tr1 @ qs) ss = Exited 0 out
                  \<and> \<not> contains out ''account sequence mismatch'' \<longrightarrow>
                snd ?run = ?tr1 @ qs @ [Exec ss]
              \<and> status_of (fst ?run) = Some 200
              \<and> body_field (fst ?run) ''status'' = Some (PStr ''bond_and_mod_submitted'')
              \<and> body_field (fst ?run) ''mod_cmd'' = Some (PList (map PStr ss))
              \<and> body_field (fst ?run) ''mod_tx''
                  = Some (PDict [(''exit_code'', PInt 0), (''output'', PStr out)])"
    by blast
  from f poll have "seq = []" and qs: "qs = ?qs" by simp_all
  with none have ss: "ss = mod_ss []" by simp
  from good w quiet have
    "snd ?run = ?tr1 @ ?qs @ [Exec (mod_ss [])]
     \<and> status_of (fst ?run) = Some 200
     \<and> body_field (fst ?run) ''status'' = Some (PStr ''bond_and_mod_submitted'')
     \<and> body_field (fst ?run) ''mod_cmd'' = Some (PList (map PStr (mod_ss [])))
     \<and> body_field (fst ?run) ''mod_tx''
         = Some (PDict [(''exit_code'', PInt 0), (''output'', PStr ''code: 0'')])"
    unfolding qs ss by blast
  with h1 h2 h3 poll w quiet show ?thesis by blast
qed

section \<open>Failures of the key derivation and of the service lookup\<close>

text \<open>
  What the key derivation and the handler do with a failure that \<open>derive_pubkeys\<close> reports:
  the handler returns status 500 with that error, and no transaction is among the events.
\<close>

lemma derive_pubkeys_error_nonempty:
  "derive_pubkeys cfg e user kb tr = (Inr (raw, b32, Some err), tr1) \<Longrightarrow> err \<noteq> []"
  by (auto simp: derive_pubkeys_def split: prod.splits sum.splits if_splits)

lemma reported_key_failure_is_terminal:
  assumes "py_or body (PDict []) = PDict payload"
      and "truthy (dict_get payload ''service'')"
      and "resolve_service cfg e (dict_get payload ''service'') [] = (Inr (resolved, note), tr)"
      and "derive_pubkeys cfg e (KEY_NAME cfg) (KEYRING cfg) tr = (Inr (raw, b32, Some err), tr1)"
  shows "bond_and_mod_provider cfg e body =
           (Inr (500, PDict [(''error'', PStr err), (''pubkey_error'', PStr err),
                             (''user'', PStr (KEY_NAME cfg)), (''keyring_backend'', PStr (KEYRING cfg)),
                             (''pubkey'', pubkey_json raw b32)]), tr1)
         \<and> list_all (\<lambda>ev. tx_name ev = None) tr1"
proof -
  from derive_pubkeys_error_nonempty [OF assms(4)] have "err \<noteq> []" .
  then have p: "prologue cfg e body =
           (Inl (Inr (500, PDict [(''error'', PStr err), (''pubkey_error'', PStr err),
                             (''user'', PStr (KEY_NAME cfg)), (''keyring_backend'', PStr (KEYRING cfg)),
                             (''pubkey'', pubkey_json raw b32)])), tr1)"
    using assms by (simp add: prologue_def read_payload_def str_or_none_def)
  from prologue_trace [OF p] p show ?thesis by (simp add: bond_and_mod_provider_def)
qed

text \<open>
  C4. The key command exits with 0 and its output has no non-empty key: it prints
  \<^verbatim>\<open>{"key":null}\<close>, or the JSON array \<^verbatim>\<open>[]\<close>. \<^verbatim>\<open>json.loads\<close> succeeds; in the first case
  \<^verbatim>\<open>get\<close> gives \<^verbatim>\<open>None\<close> and \<^verbatim>\<open>None.strip()\<close> raises \<^verbatim>\<open>AttributeError\<close>, in the second the
  list has no \<^verbatim>\<open>get\<close>. \<open>derive_pubkeys\<close> does not catch it: the handler returns no response
  of its own, and the diagnostic text is lost.
\<close>

theorem key_output_without_key_raises:
  "bond_and_mod_provider cfg0 env_nullkey body7 = (Inl AttributeError, [Exec catalog_ss, Exec keys_ss])
   \<and> bond_and_mod_provider cfg0 env_listkey body7 = (Inl AttributeError, [Exec catalog_ss, Exec keys_ss])"
  by code_simp

text \<open>
  What the service lookup does when it holds: a string that is not all digits after stripping
  is passed on without a command; a string of digits is looked up first thing; and a failed
  query, output that is not JSON, or an object in which the scan finds nothing leave the
  service as it was, with the note.
\<close>

lemma resolve_service_passes_names:
  "\<not> isdigit (strip s) \<Longrightarrow> resolve_service cfg e (PStr s) tr = (Inr (PStr s, ''''), tr)"
  by (simp add: resolve_service_def)

lemma resolve_service_asks_catalog:
  assumes "isdigit (strip s)"
  shows "\<exists>ss. take 5 (rev ss) = rev [''query'', ''arkeo'', ''all-services'', ''-o'', ''json'']
            \<and> snd (resolve_service cfg e (PStr s) tr) = tr @ [Exec ss]"
  using assms
  by (auto simp: resolve_service_def lookup_service_name_by_id_def run_list_def
           split: proc.splits sum.splits option.splits pyval.splits loaded.splits)

lemma resolve_service_soft_failure:
  assumes "isdigit (strip s)"
      and "lookup_service_name_by_id cfg e (strip s) tr = (Inr PNone, tr1)"
  shows "resolve_service cfg e (PStr s) tr =
           (Inr (PStr s, ''could not resolve service id '' @ strip s @ '' to name''), tr1)"
  using assms by (simp add: resolve_service_def)

lemma lookup_service_soft_cases:
  assumes "run_list e
             (map PStr [''arkeod'', ''--home'', ARKEOD_HOME cfg]
              @ (if ARKEOD_NODE cfg \<noteq> [] then [PStr ''--node'', PStr (ARKEOD_NODE cfg)] else [])
              @ map PStr [''query'', ''arkeo'', ''all-services'', ''-o'', ''json'']) tr
           = (Inr (code, out), tr1)"
      and "code \<noteq> 0 \<or> json_loads e out = JSONDecodeError
           \<or> (\<exists>kvs items. json_loads e out = Loaded (PDict kvs) \<and> services_of (PDict kvs) = Inr (PList items)
                 \<and> scan_services (py_repr e) sid items = PNone)"
  shows "lookup_service_name_by_id cfg e sid tr = (Inr PNone, tr1)"
  using assms unfolding lookup_service_name_by_id_def by auto

text \<open>
  C5. The request is for service \<^verbatim>\<open>7\<close> and the catalog command exits with 0 and prints the
  JSON array \<^verbatim>\<open>[]\<close>, in which no entry has the id 7. The inner function calls \<^verbatim>\<open>get\<close> on the
  list, \<^verbatim>\<open>AttributeError\<close> leaves the handler, and the request ends there: the key is not
  looked up and nothing is submitted.
\<close>

theorem array_catalog_raises:
  "bond_and_mod_provider cfg0 env_array body7 = (Inl AttributeError, [Exec catalog_ss])"
  by code_simp

section \<open>What a failure response carries\<close>

text \<open>
  The responses for a failed bond and for a failed metadata update carry the public keys, the
  service as requested and as resolved, the command and its output.
\<close>

lemma later_failures_carry_context:
  "field (snd (bond_failed cfg L out)) ''pubkey'' = Some (pubkey_json (raw_pubkey L) (bech32_pubkey L))
   \<and> field (snd (bond_failed cfg L out)) ''detail'' = Some (PStr out)
   \<and> field (snd (bond_failed cfg L out)) ''cmd'' = Some (PList (bond_cmd cfg L))
   \<and> (\<exists>i. field (snd (bond_failed cfg L out)) ''inputs'' = Some i
          \<and> field i ''service'' = Some (service (inp L))
          \<and> field i ''resolved_service'' = Some (resolved_service L)
          \<and> field i ''bond'' = Some (PStr (bond (inp L))))
   \<and> field (snd (mod_failed cfg L B cmd out)) ''pubkey'' = Some (pubkey_json (raw_pubkey L) (bech32_pubkey L))
   \<and> field (snd (mod_failed cfg L B cmd out)) ''detail'' = Some (PStr out)
   \<and> field (snd (mod_failed cfg L B cmd out)) ''cmd'' = Some (PList cmd)
   \<and> (\<exists>i. field (snd (mod_failed cfg L B cmd out)) ''inputs'' = Some i
          \<and> field i ''service'' = Some (service (inp L))
          \<and> field i ''resolved_service'' = Some (resolved_service L)
          \<and> field i ''sentinel_uri'' = Some (sentinel_uri (inp L)))"
  by (simp add: bond_failed_def mod_failed_def)

text \<open>
  C8. The key command exits with 1. The response has status 500, the error with the output of
  the command, the user, the keyring and the (empty) public keys, and nothing else: neither
  the service of the request, which the handler has resolved by then, nor the other inputs.
\<close>

theorem key_failure_response_lacks_inputs:
  "bond_and_mod_provider cfg0 env_nokey body7 =
     (Inr (500, PDict
        [(''error'', PStr ''failed to fetch raw pubkey: Error: provider is not a valid name or address: key not found''),
         (''pubkey_error'', PStr ''failed to fetch raw pubkey: Error: provider is not a valid name or address: key not found''),
         (''user'', PStr ''provider''),
         (''keyring_backend'', PStr ''test''),
         (''pubkey'', PDict [(''raw'', PStr ''''), (''bech32'', PStr '''')])]),
      [Exec catalog_ss, Exec keys_ss])"
  by code_simp

section \<open>The metadata fields of the request\<close>











end
